theory Spec2Isabelle
  imports
    Complex_Main
    "HOL-Library.Char_ord"
    "HOL-Library.List_Lexorder"
    "HOL-Library.Product_Lexorder"
begin

section \<open>Data model\<close>

text \<open>
  The program (\<^verbatim>\<open>main.py\<close>) is a pandas pipeline. A data frame is modelled as the list
  of its rows, a row as a record with one field per column. A cell that pandas holds as
  \<^verbatim>\<open>NaN\<close> / \<^verbatim>\<open>NA\<close> is \<open>None\<close>. Cumulative counts are pandas \<^verbatim>\<open>Int64\<close> cells:
  an \<open>int option\<close> whose value lies in the signed 64-bit range, and every sum and
  difference of counts is reduced to that range by \<open>wrap64\<close>, as the machine arithmetic
  wraps. Coordinates and moving averages are floating point in the program and exact
  rationals here. A calendar day is the triple
  (year, month, day), ordered lexicographically, which is the order of the timestamps.
  Strings are ordered lexicographically by character code, as Python orders \<^verbatim>\<open>str\<close>.
\<close>

type_synonym date = "nat \<times> nat \<times> nat"

text \<open>The identifying columns every long table carries.\<close>

record entity =
  Country :: string
  Province_State :: "string option"
  Lat :: "rat option"
  Long :: "rat option"
  date :: date

text \<open>
  A row of a long table that holds one metric: the column the caller names with
  \<^verbatim>\<open>column_name\<close> (\<^verbatim>\<open>CumConfirmed\<close> or \<^verbatim>\<open>CumDeaths\<close>) is the field \<open>metric\<close>.
\<close>

record series_row = entity +
  metric :: "int option"

text \<open>A row of a merged table: both metrics of one entity and date.\<close>

record unified_row = entity +
  CumConfirmed :: "int option"
  CumDeaths :: "int option"

text \<open>
  A row of the unified table that \<^verbatim>\<open>refresh_data\<close> builds and pickles, with its row
  label (the index of the data frame). \<^verbatim>\<open>merge\<close> numbers its result from zero and
  \<^verbatim>\<open>pd.concat\<close> keeps the labels of its parts, so a label can occur twice in the
  unified table.
\<close>

record stored_row = unified_row +
  label :: nat

text \<open>
  A row of a wide table as \<^verbatim>\<open>read_csv\<close> yields it, after the renaming of the
  identifying columns: the identifying cells, and one cell per date column.
\<close>

record wide_row =
  wCountry :: string
  wProvince_State :: "string option"
  wLat :: "rat option"
  wLong :: "rat option"
  cells :: "int option list"

text \<open>
  The US files carry further columns, which \<^verbatim>\<open>load_data_us\<close> drops: the six leading
  ones (\<^verbatim>\<open>iloc[:, 6:]\<close>), \<^verbatim>\<open>Combined_Key\<close>, and \<^verbatim>\<open>Population\<close> where the file has it.
\<close>

record us_wide_row = wide_row +
  leading6 :: "string list"
  Combined_Key :: string
  Population :: "int option"

text \<open>
  A wide table: the names of the header's columns that are not date columns, in the file's
  order and as the file spells them; the date columns, in the file's order; and the rows.
  Every column of a file that is not named in \<open>header\<close> is a date column.
\<close>

record 'r wide_table =
  header :: "string list"
  date_columns :: "date list"
  wrows :: "'r list"

section \<open>64-bit counts\<close>

text \<open>The value a signed 64-bit integer holds after an operation whose exact result is \<open>x\<close>.\<close>

definition wrap64 :: "int \<Rightarrow> int" where
  "wrap64 x = (x + 2 ^ 63) mod 2 ^ 64 - 2 ^ 63"

section \<open>Reshaping: \<^verbatim>\<open>melt\<close>\<close>

text \<open>
  \<^verbatim>\<open>read_csv\<close> pads a short line with \<^verbatim>\<open>NaN\<close>, so the cell of a row under the
  \<open>j\<close>-th date column is missing when the row has no \<open>j\<close>-th cell.
\<close>

definition cell :: "'a wide_row_scheme \<Rightarrow> nat \<Rightarrow> int option" where
  "cell r j = (if j < length (cells r) then cells r ! j else None)"

definition melt_row :: "date \<Rightarrow> nat \<Rightarrow> 'a wide_row_scheme \<Rightarrow> series_row" where
  "melt_row d j r =
     \<lparr>Country = wCountry r, Province_State = wProvince_State r, Lat = wLat r,
      Long = wLong r, date = d, metric = cell r j\<rparr>"

text \<open>
  \<^verbatim>\<open>melt(id_vars=[Country, Province/State, Lat, Long], var_name='date', ...)\<close>:
  one block per date column, in header order, each block holding every row in table order.
\<close>

definition melt :: "('a wide_row_scheme) wide_table \<Rightarrow> series_row list" where
  "melt t =
     concat (map (\<lambda>(j, d). map (melt_row d j) (wrows t))
                 (zip [0..<length (date_columns t)] (date_columns t)))"

section \<open>Grouping and the reducers of \<^verbatim>\<open>agg\<close>\<close>

text \<open>The values that are present in a column, in order (pandas reducers skip \<^verbatim>\<open>NA\<close>).\<close>

fun present :: "'a option list \<Rightarrow> 'a list" where
  "present [] = []"
| "present (None # vs) = present vs"
| "present (Some v # vs) = v # present vs"

text \<open>
  \<^verbatim>\<open>sum\<close> of a group: missing cells count as zero, and a group without any present
  cell sums to zero. The sum of a coordinate column is a float; the sum of an
  \<^verbatim>\<open>Int64\<close> column is a 64-bit integer and wraps.
\<close>

definition sum_skipna :: "rat option list \<Rightarrow> rat option" where
  "sum_skipna vs = Some (sum_list (present vs))"

definition sum_Int64 :: "int option list \<Rightarrow> int option" where
  "sum_Int64 vs = Some (wrap64 (sum_list (present vs)))"

text \<open>\<^verbatim>\<open>np.median\<close> of a group, over the present cells; missing when there is none.\<close>

definition median_skipna :: "rat option list \<Rightarrow> rat option" where
  "median_skipna vs =
     (let ys = sort (present vs); n = length ys
      in if n = 0 then None
         else if odd n then Some (ys ! (n div 2))
         else Some ((ys ! (n div 2 - 1) + ys ! (n div 2)) / 2))"

text \<open>
  \<^verbatim>\<open>groupby\<close> yields one group per distinct key, the keys in ascending order
  (\<^verbatim>\<open>sort=True\<close> is the default).
\<close>

definition group_keys :: "'k::linorder list \<Rightarrow> 'k list" where
  "group_keys ks = sort (remdups ks)"

text \<open>\<^verbatim>\<open>Series.unique\<close>: the distinct values in order of first appearance.\<close>

fun unique :: "'a list \<Rightarrow> 'a list" where
  "unique [] = []"
| "unique (x # xs) = x # unique (filter (\<lambda>y. y \<noteq> x) xs)"

section \<open>The loaders\<close>

text \<open>
  \<^verbatim>\<open>load_data_global\<close> after \<^verbatim>\<open>read_csv\<close>: melt, keep the rows of China aside,
  group by (Country, date) summing the metric and taking the median coordinates, set
  Province/State of the grouped rows to \<^verbatim>\<open><all>\<close>, and append the rows of China.
\<close>

definition aggregate_country :: "series_row list \<Rightarrow> string \<times> date \<Rightarrow> series_row" where
  "aggregate_country data k =
     (let g = filter (\<lambda>r. (Country r, date r) = k) data
      in \<lparr>Country = fst k, Province_State = Some ''<all>'',
          Lat = median_skipna (map Lat g), Long = median_skipna (map Long g),
          date = snd k, metric = sum_Int64 (map metric g)\<rparr>)"

definition load_data_global_frame :: "('a wide_row_scheme) wide_table \<Rightarrow> series_row list" where
  "load_data_global_frame t =
     (let data = melt t;
          data_china = filter (\<lambda>r. Country r = ''China'') data;
          grouped = map (aggregate_country data)
                        (group_keys (map (\<lambda>r. (Country r, date r)) data))
      in grouped @ data_china)"

text \<open>
  \<^verbatim>\<open>load_data_us\<close> after \<^verbatim>\<open>read_csv\<close>: the extra columns are dropped (the melt reads
  only the common fields), then the rows are grouped by (Country, Province/State, date).
  \<^verbatim>\<open>groupby\<close> drops the rows whose key has a missing component.
\<close>

definition us_key :: "series_row \<Rightarrow> (string \<times> string \<times> date) option" where
  "us_key r = (case Province_State r of None \<Rightarrow> None | Some p \<Rightarrow> Some (Country r, p, date r))"

definition aggregate_state :: "series_row list \<Rightarrow> string \<times> string \<times> date \<Rightarrow> series_row" where
  "aggregate_state data k =
     (let g = filter (\<lambda>r. us_key r = Some k) data
      in \<lparr>Country = fst k, Province_State = Some (fst (snd k)),
          Lat = median_skipna (map Lat g), Long = median_skipna (map Long g),
          date = snd (snd k), metric = sum_Int64 (map metric g)\<rparr>)"

definition load_data_us_frame :: "us_wide_row wide_table \<Rightarrow> series_row list" where
  "load_data_us_frame t =
     (let data = melt t
      in map (aggregate_state data) (group_keys (present (map us_key data))))"

section \<open>Merging the two metrics\<close>

text \<open>
  \<^verbatim>\<open>left.merge(right)\<close> with no arguments is an inner join on all the columns the two
  frames share. The frames of one loader share Country, Province/State, Lat, Long and
  date; only the metric column differs. Missing key cells match each other. The result
  follows the order of the left frame.
\<close>

definition merge_key ::
  "'a entity_scheme \<Rightarrow> string \<times> string option \<times> rat option \<times> rat option \<times> date" where
  "merge_key r = (Country r, Province_State r, Lat r, Long r, date r)"

definition merge_rows :: "series_row \<Rightarrow> series_row \<Rightarrow> unified_row" where
  "merge_rows l r =
     \<lparr>Country = Country l, Province_State = Province_State l, Lat = Lat l, Long = Long l,
      date = date l, CumConfirmed = metric l, CumDeaths = metric r\<rparr>"

definition merge :: "series_row list \<Rightarrow> series_row list \<Rightarrow> unified_row list" where
  "merge left right =
     concat (map (\<lambda>l. map (merge_rows l) (filter (\<lambda>r. merge_key r = merge_key l) right)) left)"

section \<open>The columns a loader needs\<close>

text \<open>
  The steps of the loaders that name columns raise \<^verbatim>\<open>KeyError\<close> when the header lacks
  them: \<^verbatim>\<open>melt\<close> for its \<^verbatim>\<open>id_vars\<close>, \<^verbatim>\<open>drop('Combined_Key', axis=1)\<close> for its column.
  \<^verbatim>\<open>rename\<close> leaves a name it does not know as it is.
\<close>

datatype error =
    FetchError string
  | KeyError "string list"
  | OSError
  | FileNotFoundError
  | UnpicklingError
  | TypeError
  | IndexError

definition rename :: "(string \<times> string) list \<Rightarrow> string list \<Rightarrow> string list" where
  "rename names cols = map (\<lambda>c. case map_of names c of None \<Rightarrow> c | Some c' \<Rightarrow> c') cols"

definition id_vars :: "string list" where
  "id_vars = [''Country'', ''Province/State'', ''Lat'', ''Long'']"

definition melt_columns :: "string list \<Rightarrow> error + unit" where
  "melt_columns cols =
     (case filter (\<lambda>c. c \<notin> set cols) id_vars of
        [] \<Rightarrow> Inr ()
      | missing \<Rightarrow> Inl (KeyError missing))"

definition global_columns :: "string list \<Rightarrow> error + unit" where
  "global_columns cols = melt_columns (rename [(''Country/Region'', ''Country'')] cols)"

text \<open>
  The US files: \<^verbatim>\<open>iloc[:, 6:]\<close> drops the first six columns, whatever they are;
  \<^verbatim>\<open>Population\<close> is dropped where it is there; \<^verbatim>\<open>Combined_Key\<close> must be there.
\<close>

definition us_columns :: "string list \<Rightarrow> error + unit" where
  "us_columns cols =
     (let data = drop 6 cols;
          data = (if ''Population'' \<in> set data
                  then filter (\<lambda>c. c \<noteq> ''Population'') data else data)
      in if ''Combined_Key'' \<notin> set data then Inl (KeyError [''Combined_Key''])
         else melt_columns
                (rename [(''Country_Region'', ''Country''),
                         (''Province_State'', ''Province/State''), (''Long_'', ''Long'')]
                   (filter (\<lambda>c. c \<noteq> ''Combined_Key'') data)))"

section \<open>The cache: \<^verbatim>\<open>refresh_data\<close> and \<^verbatim>\<open>all_data\<close>\<close>

text \<open>
  The state the program reads and writes: the pickle file, the log of the files fetched,
  and what the disk does with the next write of the pickle. The file is absent
  (\<^verbatim>\<open>isfile\<close> is false), holds a table, or holds the beginning of one: \<^verbatim>\<open>to_pickle\<close>
  opens \<^verbatim>\<open>allData.pkl\<close> for writing, which empties it, and writes the table into it,
  so a write that fails after the file is open leaves a truncated file. The pickle
  round-trips a table as it is, row labels included.

  The remote side maps a file name to the table \<^verbatim>\<open>read_csv\<close> parses from it;
  \<open>None\<close> is a download or a parse that raises.
\<close>

datatype snapshot = Absent | Stored "stored_row list" | Truncated

datatype disk = Writes | FailsToOpen | FailsMidway

record remote =
  global_csv :: "string \<rightharpoonup> wide_row wide_table"
  us_csv :: "string \<rightharpoonup> us_wide_row wide_table"

record world =
  pickle :: snapshot
  fetched :: "string list"
  disk :: disk

definition load_data_global ::
  "remote \<Rightarrow> string \<Rightarrow> world \<Rightarrow> (error + series_row list) \<times> world" where
  "load_data_global rem file_name w =
     (let w' = w\<lparr>fetched := fetched w @ [file_name]\<rparr>
      in case global_csv rem file_name of
           None \<Rightarrow> (Inl (FetchError file_name), w')
         | Some t \<Rightarrow>
             (case global_columns (header t) of
                Inl e \<Rightarrow> (Inl e, w')
              | Inr _ \<Rightarrow> (Inr (load_data_global_frame t), w')))"

definition load_data_us ::
  "remote \<Rightarrow> string \<Rightarrow> world \<Rightarrow> (error + series_row list) \<times> world" where
  "load_data_us rem file_name w =
     (let w' = w\<lparr>fetched := fetched w @ [file_name]\<rparr>
      in case us_csv rem file_name of
           None \<Rightarrow> (Inl (FetchError file_name), w')
         | Some t \<Rightarrow>
             (case us_columns (header t) of
                Inl e \<Rightarrow> (Inl e, w')
              | Inr _ \<Rightarrow> (Inr (load_data_us_frame t), w')))"

text \<open>The result of \<^verbatim>\<open>merge\<close> carries the labels 0, 1, 2, ...\<close>

definition range_index :: "unified_row list \<Rightarrow> stored_row list" where
  "range_index rows =
     map (\<lambda>(i, r).
            \<lparr>Country = Country r, Province_State = Province_State r, Lat = Lat r,
             Long = Long r, date = date r, CumConfirmed = CumConfirmed r,
             CumDeaths = CumDeaths r, label = i\<rparr>)
         (zip [0..<length rows] rows)"

definition to_pickle :: "stored_row list \<Rightarrow> world \<Rightarrow> (error + unit) \<times> world" where
  "to_pickle data w =
     (case disk w of
        Writes \<Rightarrow> (Inr (), w\<lparr>pickle := Stored data\<rparr>)
      | FailsToOpen \<Rightarrow> (Inl OSError, w)
      | FailsMidway \<Rightarrow> (Inl OSError, w\<lparr>pickle := Truncated\<rparr>))"

definition refresh_data :: "remote \<Rightarrow> world \<Rightarrow> (error + stored_row list) \<times> world" where
  "refresh_data rem w =
     (case load_data_global rem ''time_series_covid19_confirmed_global.csv'' w of
        (Inl e, w1) \<Rightarrow> (Inl e, w1)
      | (Inr gc, w1) \<Rightarrow>
     (case load_data_global rem ''time_series_covid19_deaths_global.csv'' w1 of
        (Inl e, w2) \<Rightarrow> (Inl e, w2)
      | (Inr gd, w2) \<Rightarrow>
     (case load_data_us rem ''time_series_covid19_confirmed_US.csv'' w2 of
        (Inl e, w3) \<Rightarrow> (Inl e, w3)
      | (Inr uc, w3) \<Rightarrow>
     (case load_data_us rem ''time_series_covid19_deaths_US.csv'' w3 of
        (Inl e, w4) \<Rightarrow> (Inl e, w4)
      | (Inr ud, w4) \<Rightarrow>
          (let data_global = range_index (merge gc gd);
               data_us = range_index (merge uc ud);
               data = data_global @ data_us
           in case to_pickle data w4 of
                (Inl e, w5) \<Rightarrow> (Inl e, w5)
              | (Inr _, w5) \<Rightarrow> (Inr data, w5))))))"



section \<open>The callbacks\<close>

text \<open>
  \<^verbatim>\<open>update_states\<close> and \<^verbatim>\<open>filtered_data\<close> start with \<^verbatim>\<open>d = all_data()\<close>; the
  table \<open>d\<close> is their first argument here.

  \<^verbatim>\<open>update_states\<close>: the distinct Province/State cells of the country, \<^verbatim>\<open><all>\<close>
  inserted in front, the list sorted. Python's \<^verbatim>\<open>sort\<close> raises \<^verbatim>\<open>TypeError\<close> when
  the list mixes strings with a missing cell (a float). An option is the pair of its
  label and its value.
\<close>

definition update_states ::
  "stored_row list \<Rightarrow> string \<Rightarrow> error + ((string \<times> string) list \<times> string)" where
  "update_states d country =
     (let states = unique (map Province_State (filter (\<lambda>r. Country r = country) d));
          states1 = Some ''<all>'' # states
      in if None \<in> set states1 then Inl TypeError
         else (let state_options = map (\<lambda>s. (s, s)) (sort (present states1))
               in case state_options of
                    [] \<Rightarrow> Inl IndexError
                  | opt # _ \<Rightarrow> Inr (state_options, snd opt)))"

text \<open>
  The frame of \<^verbatim>\<open>filtered_data\<close> after the selection: Country is dropped;
  Province/State is dropped too in the \<^verbatim>\<open><all>\<close> branch, which \<open>None\<close> in
  \<open>fProvince_State\<close> stands for (in the other branch every row holds the state asked for).
  \<open>flabel\<close> is the row label.
\<close>

record selected_row =
  flabel :: nat
  fProvince_State :: "string option"
  fLat :: "rat option"
  fLong :: "rat option"
  fdate :: date
  fCumConfirmed :: "int option"
  fCumDeaths :: "int option"

record filtered_row = selected_row +
  NewConfirmed :: "int option"
  NewDeaths :: "int option"
  dateStr :: string
  NewDeathsSMA7 :: "rat option"
  NewConfirmedSMA7 :: "rat option"

text \<open>
  \<^verbatim>\<open>groupby("date").sum().reset_index()\<close>: every remaining column is summed, and the
  rows are labelled afresh, 0, 1, 2, ...
\<close>

definition sum_by_date :: "stored_row list \<Rightarrow> nat \<times> date \<Rightarrow> selected_row" where
  "sum_by_date data ik =
     (let g = filter (\<lambda>r. date r = snd ik) data
      in \<lparr>flabel = fst ik, fProvince_State = None,
          fLat = sum_skipna (map Lat g), fLong = sum_skipna (map Long g), fdate = snd ik,
          fCumConfirmed = sum_Int64 (map CumConfirmed g),
          fCumDeaths = sum_Int64 (map CumDeaths g)\<rparr>)"

text \<open>\<^verbatim>\<open>data.loc[...]\<close> keeps the rows it selects as they are, labels included.\<close>

definition keep_row :: "stored_row \<Rightarrow> selected_row" where
  "keep_row r =
     \<lparr>flabel = label r, fProvince_State = Province_State r, fLat = Lat r, fLong = Long r,
      fdate = date r, fCumConfirmed = CumConfirmed r, fCumDeaths = CumDeaths r\<rparr>"

definition select_rows :: "stored_row list \<Rightarrow> string \<Rightarrow> string \<Rightarrow> selected_row list" where
  "select_rows d country state =
     (let data = filter (\<lambda>r. Country r = country) d
      in if state = ''<all>''
         then (let keys = group_keys (map date data)
               in map (sum_by_date data) (zip [0..<length keys] keys))
         else map keep_row (filter (\<lambda>r. Province_State r = Some state) data))"

text \<open>
  \<^verbatim>\<open>diff()\<close>: each cell minus the cell of the row before, in 64-bit arithmetic; missing
  in the first row and wherever one of the two cells is missing. \<^verbatim>\<open>fillna(0)\<close> then
  replaces every missing cell by zero.
\<close>

fun minus_na :: "int option \<Rightarrow> int option \<Rightarrow> int option" where
  "minus_na (Some a) (Some b) = Some (wrap64 (a - b))"
| "minus_na _ _ = None"

fun diff :: "int option list \<Rightarrow> int option list" where
  "diff [] = []"
| "diff (v # vs) = None # map2 minus_na vs (v # vs)"

definition fillna0 :: "int option list \<Rightarrow> int option list" where
  "fillna0 vs = map (\<lambda>v. case v of None \<Rightarrow> Some 0 | Some x \<Rightarrow> Some x) vs"

text \<open>
  \<open>new_cases\<close>: the differences of the two \<^verbatim>\<open>Int64\<close> columns, row by row, each row
  under the label of the row of \<open>data\<close> it was computed for.
\<close>

definition new_cases :: "selected_row list \<Rightarrow> (nat \<times> int option \<times> int option) list" where
  "new_cases data =
     zip (map flabel data)
       (zip (fillna0 (diff (map fCumConfirmed data))) (fillna0 (diff (map fCumDeaths data))))"

text \<open>
  \<^verbatim>\<open>data.join(new_cases)\<close> is a left join on the row labels: each row of \<open>data\<close>, in
  order, with every row of \<open>new_cases\<close> that carries the same label. Where the labels of
  \<open>data\<close> are distinct this pairs each row with its own differences; a label that occurs
  \<open>n\<close> times yields \<open>n\<close> rows for each of its rows. (For repeated labels pandas before 2.2
  returns the same rows ordered by label.)
\<close>

definition join ::
  "selected_row list \<Rightarrow> (nat \<times> int option \<times> int option) list \<Rightarrow>
   (selected_row \<times> int option \<times> int option) list" where
  "join data new =
     concat (map (\<lambda>r. map (\<lambda>n. (r, snd n)) (filter (\<lambda>n. fst n = flabel r) new)) data)"

text \<open>
  \<^verbatim>\<open>df.rolling(length).mean()\<close>: at each position the mean of the last \<open>length\<close>
  cells; missing while fewer than \<open>length\<close> cells are there, and when a cell of the window
  is missing.
\<close>

definition window_mean :: "int option list \<Rightarrow> nat \<Rightarrow> nat \<Rightarrow> rat option" where
  "window_mean vs len i =
     (if len = 0 \<or> i + 1 < len then None
      else (case those (take len (drop (i + 1 - len) vs)) of
              None \<Rightarrow> None
            | Some ws \<Rightarrow> Some (of_int (sum_list ws) / of_nat len)))"

definition simple_moving_average :: "int option list \<Rightarrow> nat \<Rightarrow> rat option list" where
  "simple_moving_average df len = map (window_mean df len) [0..<length df]"

text \<open>\<^verbatim>\<open>strftime('%b %d, %Y')\<close> of a calendar day, as in \<^verbatim>\<open>Jan 07, 2020\<close>.\<close>

definition digit :: "nat \<Rightarrow> char" where
  "digit k = ''0123456789'' ! (k mod 10)"

definition strftime :: "date \<Rightarrow> string" where
  "strftime dt =
     (case dt of (y, m, d) \<Rightarrow>
        ([''Jan'', ''Feb'', ''Mar'', ''Apr'', ''May'', ''Jun'',
          ''Jul'', ''Aug'', ''Sep'', ''Oct'', ''Nov'', ''Dec''] ! ((m - 1) mod 12))
        @ '' '' @ [digit (d div 10), digit d] @ '', ''
        @ [digit (y div 1000), digit (y div 100), digit (y div 10), digit y])"

definition join_row ::
  "(selected_row \<times> int option \<times> int option) \<times> rat option \<times> rat option \<Rightarrow> filtered_row" where
  "join_row x =
     (case x of ((r, nc, nd), sd, sc) \<Rightarrow>
        \<lparr>flabel = flabel r, fProvince_State = fProvince_State r, fLat = fLat r,
         fLong = fLong r, fdate = fdate r, fCumConfirmed = fCumConfirmed r,
         fCumDeaths = fCumDeaths r, NewConfirmed = nc, NewDeaths = nd,
         dateStr = strftime (fdate r), NewDeathsSMA7 = sd, NewConfirmedSMA7 = sc\<rparr>)"

text \<open>
  \<^verbatim>\<open>filtered_data\<close>: select, difference, join on the labels, then the two moving
  averages of the joined frame's New columns, set row by row.
\<close>

definition filtered_data :: "stored_row list \<Rightarrow> string \<Rightarrow> string \<Rightarrow> filtered_row list" where
  "filtered_data d country state =
     (let data = select_rows d country state;
          data = join data (new_cases data);
          sma_deaths = simple_moving_average (map (\<lambda>x. snd (snd x)) data) 7;
          sma_confirmed = simple_moving_average (map (\<lambda>x. fst (snd x)) data) 7
      in map join_row (zip data (zip sma_deaths sma_confirmed)))"

section \<open>Sample tables\<close>

text \<open>
  Small files: two provinces of China, two of Australia and the United States as one row in
  the global files; two counties of one state in the US files; two dates.
\<close>

definition demo_global :: "wide_row wide_table" where
  "demo_global =
     \<lparr>header = [''Province/State'', ''Country/Region'', ''Lat'', ''Long''],
      date_columns = [(2020, 1, 22), (2020, 1, 23)],
      wrows =
        [\<lparr>wCountry = ''China'', wProvince_State = Some ''Hubei'', wLat = Some 30, wLong = Some 112,
          cells = [Some 444, Some 445]\<rparr>,
         \<lparr>wCountry = ''Australia'', wProvince_State = Some ''Victoria'', wLat = Some (-37),
          wLong = Some 144, cells = [Some 0, Some 1]\<rparr>,
         \<lparr>wCountry = ''China'', wProvince_State = Some ''Beijing'', wLat = Some 40, wLong = Some 116,
          cells = [Some 14, None]\<rparr>,
         \<lparr>wCountry = ''Australia'', wProvince_State = Some ''Tasmania'', wLat = Some (-41),
          wLong = Some 145, cells = [Some 0, Some 2]\<rparr>,
         \<lparr>wCountry = ''US'', wProvince_State = None, wLat = Some 40,
          wLong = Some (-100), cells = [Some 1, Some 5]\<rparr>]\<rparr>"

definition demo_global_deaths :: "wide_row wide_table" where
  "demo_global_deaths =
     \<lparr>header = [''Province/State'', ''Country/Region'', ''Lat'', ''Long''],
      date_columns = [(2020, 1, 22), (2020, 1, 23)],
      wrows =
        [\<lparr>wCountry = ''China'', wProvince_State = Some ''Hubei'', wLat = Some 30, wLong = Some 112,
          cells = [Some 17, Some 17]\<rparr>,
         \<lparr>wCountry = ''Australia'', wProvince_State = Some ''Victoria'', wLat = Some (-37),
          wLong = Some 144, cells = [Some 0, Some 0]\<rparr>,
         \<lparr>wCountry = ''China'', wProvince_State = Some ''Beijing'', wLat = Some 40, wLong = Some 116,
          cells = [Some 0, Some 1]\<rparr>,
         \<lparr>wCountry = ''Australia'', wProvince_State = Some ''Tasmania'', wLat = Some (-41),
          wLong = Some 145, cells = [Some 0, Some 0]\<rparr>,
         \<lparr>wCountry = ''US'', wProvince_State = None, wLat = Some 40,
          wLong = Some (-100), cells = [Some 0, Some 1]\<rparr>]\<rparr>"

definition demo_us :: "us_wide_row wide_table" where
  "demo_us =
     \<lparr>header = [''UID'', ''iso2'', ''iso3'', ''code3'', ''FIPS'', ''Admin2'', ''Province_State'',
                ''Country_Region'', ''Lat'', ''Long_'', ''Combined_Key''],
      date_columns = [(2020, 1, 22), (2020, 1, 23)],
      wrows =
        [\<lparr>wCountry = ''US'', wProvince_State = Some ''New York'', wLat = Some 40, wLong = Some (-74),
          cells = [Some 1, Some 3],
          leading6 = [''84036061'', ''US'', ''USA'', ''840'', ''36061'', ''New York''],
          Combined_Key = ''New York, New York, US'', Population = None\<rparr>,
         \<lparr>wCountry = ''US'', wProvince_State = Some ''New York'', wLat = Some 42, wLong = Some (-76),
          cells = [Some 0, Some 2],
          leading6 = [''84036001'', ''US'', ''USA'', ''840'', ''36001'', ''Albany''],
          Combined_Key = ''Albany, New York, US'', Population = None\<rparr>]\<rparr>"

definition demo_us_deaths :: "us_wide_row wide_table" where
  "demo_us_deaths =
     \<lparr>header = [''UID'', ''iso2'', ''iso3'', ''code3'', ''FIPS'', ''Admin2'', ''Province_State'',
                ''Country_Region'', ''Lat'', ''Long_'', ''Combined_Key'', ''Population''],
      date_columns = [(2020, 1, 22), (2020, 1, 23)],
      wrows =
        [\<lparr>wCountry = ''US'', wProvince_State = Some ''New York'', wLat = Some 40, wLong = Some (-74),
          cells = [Some 0, Some 1],
          leading6 = [''84036061'', ''US'', ''USA'', ''840'', ''36061'', ''New York''],
          Combined_Key = ''New York, New York, US'', Population = Some 1628706\<rparr>,
         \<lparr>wCountry = ''US'', wProvince_State = Some ''New York'', wLat = Some 42, wLong = Some (-76),
          cells = [Some 0, Some 0],
          leading6 = [''84036001'', ''US'', ''USA'', ''840'', ''36001'', ''Albany''],
          Combined_Key = ''Albany, New York, US'', Population = Some 305506\<rparr>]\<rparr>"

text \<open>A remote side that serves the four files, and one that lacks the last.\<close>

definition demo_remote :: remote where
  "demo_remote =
     \<lparr>global_csv = [''time_series_covid19_confirmed_global.csv'' \<mapsto> demo_global,
                    ''time_series_covid19_deaths_global.csv'' \<mapsto> demo_global_deaths],
      us_csv = [''time_series_covid19_confirmed_US.csv'' \<mapsto> demo_us,
                ''time_series_covid19_deaths_US.csv'' \<mapsto> demo_us_deaths]\<rparr>"

definition broken_remote :: remote where
  "broken_remote =
     \<lparr>global_csv = [''time_series_covid19_confirmed_global.csv'' \<mapsto> demo_global,
                    ''time_series_covid19_deaths_global.csv'' \<mapsto> demo_global_deaths],
      us_csv = [''time_series_covid19_confirmed_US.csv'' \<mapsto> demo_us]\<rparr>"


definition stale_table :: "stored_row list" where
  "stale_table =
     [\<lparr>Country = ''Testland'', Province_State = Some ''<all>'', Lat = Some 10,
       Long = Some 20, date = (2020, 1, 21), CumConfirmed = Some 1, CumDeaths = Some 0,
       label = 0\<rparr>]"

definition stale_cache :: world where
  "stale_cache = \<lparr>pickle = Stored stale_table, fetched = [], disk = Writes\<rparr>"

text \<open>The same state on a disk that runs full during the write.\<close>

definition full_disk_cache :: world where
  "full_disk_cache = \<lparr>pickle = Stored stale_table, fetched = [], disk = FailsMidway\<rparr>"

text \<open>A remote side whose first file lacks the country column.\<close>

definition headless_remote :: remote where
  "headless_remote =
     \<lparr>global_csv = [''time_series_covid19_confirmed_global.csv'' \<mapsto>
                      demo_global\<lparr>header := [''Province/State'', ''Lat'', ''Long'']\<rparr>,
                    ''time_series_covid19_deaths_global.csv'' \<mapsto> demo_global_deaths],
      us_csv = [''time_series_covid19_confirmed_US.csv'' \<mapsto> demo_us,
                ''time_series_covid19_deaths_US.csv'' \<mapsto> demo_us_deaths]\<rparr>"

text \<open>The unified table of the sample files.\<close>

definition demo_unified :: "stored_row list" where
  "demo_unified =
     range_index
       (merge (load_data_global_frame demo_global) (load_data_global_frame demo_global_deaths)) @
     range_index (merge (load_data_us_frame demo_us) (load_data_us_frame demo_us_deaths))"

text \<open>
  Rows of one entity in the confirmed and in the deaths frame: same country, province and
  dates; \<open>death_row\<close> differs from \<open>conf_row\<close> in its latitude.
\<close>

definition conf_row :: series_row where
  "conf_row = \<lparr>Country = ''Testland'', Province_State = Some ''<all>'', Lat = Some 10,
      Long = Some 20, date = (2020, 1, 22), metric = Some 5\<rparr>"

definition death_row :: series_row where
  "death_row = \<lparr>Country = ''Testland'', Province_State = Some ''<all>'', Lat = Some 11,
      Long = Some 20, date = (2020, 1, 22), metric = Some 1\<rparr>"

definition conf_next :: series_row where
  "conf_next = \<lparr>Country = ''Testland'', Province_State = Some ''<all>'', Lat = Some 10,
      Long = Some 20, date = (2020, 1, 23), metric = Some 8\<rparr>"

definition death_same :: series_row where
  "death_same = \<lparr>Country = ''Testland'', Province_State = Some ''<all>'', Lat = Some 10,
      Long = Some 20, date = (2020, 1, 22), metric = Some 1\<rparr>"

definition death_next :: series_row where
  "death_next = \<lparr>Country = ''Testland'', Province_State = Some ''<all>'', Lat = Some 10,
      Long = Some 20, date = (2020, 1, 23), metric = None\<rparr>"

text \<open>
  The table of the Testland scenario: one country, the aggregate sentinel, the days
  1 to 8 of January; row labels, coordinates and deaths are left open.
\<close>

definition testland_row ::
  "nat \<Rightarrow> rat option \<Rightarrow> rat option \<Rightarrow> nat \<Rightarrow> int \<Rightarrow> int option \<Rightarrow> stored_row" where
  "testland_row lb la lo day confirmed deaths =
     \<lparr>Country = ''Testland'', Province_State = Some ''<all>'', Lat = la, Long = lo,
      date = (2020, 1, day), CumConfirmed = Some confirmed, CumDeaths = deaths, label = lb\<rparr>"

definition testland ::
  "(nat \<Rightarrow> nat) \<Rightarrow> rat option \<Rightarrow> rat option \<Rightarrow> (nat \<Rightarrow> int option) \<Rightarrow> stored_row list" where
  "testland lbl la lo dth =
     [testland_row (lbl 1) la lo 1 1 (dth 1), testland_row (lbl 2) la lo 2 1 (dth 2),
      testland_row (lbl 3) la lo 3 2 (dth 3), testland_row (lbl 4) la lo 4 4 (dth 4),
      testland_row (lbl 5) la lo 5 7 (dth 5), testland_row (lbl 6) la lo 6 11 (dth 6),
      testland_row (lbl 7) la lo 7 16 (dth 7), testland_row (lbl 8) la lo 8 22 (dth 8)]"

text \<open>
  One region of Testland: with a missing count on the second day; with the days out of
  order; and with row labels that repeat.
\<close>

definition region_row :: "nat \<Rightarrow> nat \<Rightarrow> int option \<Rightarrow> int option \<Rightarrow> stored_row" where
  "region_row lb day confirmed deaths =
     \<lparr>Country = ''Testland'', Province_State = Some ''North'', Lat = Some 10, Long = Some 20,
      date = (2020, 1, day), CumConfirmed = confirmed, CumDeaths = deaths, label = lb\<rparr>"

definition gap_table :: "stored_row list" where
  "gap_table =
     [region_row 0 1 (Some 5) (Some 0), region_row 1 2 None (Some 0),
      region_row 2 3 (Some 9) (Some 1)]"

definition unordered_table :: "stored_row list" where
  "unordered_table = [region_row 0 2 (Some 7) (Some 0), region_row 1 1 (Some 5) (Some 0)]"

definition relabelled_table :: "stored_row list" where
  "relabelled_table =
     [region_row 0 1 (Some 5) (Some 0), region_row 1 2 (Some 7) (Some 0),
      region_row 0 3 (Some 9) (Some 1), region_row 1 4 (Some 9) (Some 1)]"

text \<open>
  Counts near the end of the 64-bit range: a global file with two provinces of China, and
  a unified table with the total of China beside its one province.
\<close>

definition large_global :: "wide_row wide_table" where
  "large_global =
     \<lparr>header = [''Province/State'', ''Country/Region'', ''Lat'', ''Long''],
      date_columns = [(2020, 1, 22)],
      wrows =
        [\<lparr>wCountry = ''China'', wProvince_State = Some ''Hubei'', wLat = Some 30, wLong = Some 112,
          cells = [Some 4611686018427387904]\<rparr>,
         \<lparr>wCountry = ''China'', wProvince_State = Some ''Beijing'', wLat = Some 40, wLong = Some 116,
          cells = [Some 4611686018427387904]\<rparr>]\<rparr>"

definition large_table :: "stored_row list" where
  "large_table =
     [\<lparr>Country = ''China'', Province_State = Some ''<all>'', Lat = Some 30, Long = Some 112,
       date = (2020, 1, 22), CumConfirmed = Some 4611686018427387904, CumDeaths = Some 0,
       label = 0\<rparr>,
      \<lparr>Country = ''China'', Province_State = Some ''Hubei'', Lat = Some 30, Long = Some 112,
       date = (2020, 1, 22), CumConfirmed = Some 4611686018427387904, CumDeaths = Some 0,
       label = 1\<rparr>]"

section \<open>Row count of the reshape\<close>

lemma length_concat_const:
  "(\<And>x. x \<in> set xs \<Longrightarrow> length (f x) = n) \<Longrightarrow> length (concat (map f xs)) = length xs * n"
  by (induction xs) auto

text \<open>
  C9. The melt step of \<^verbatim>\<open>load_data_global\<close> keeps the row count: a wide table with
  R rows and D date columns becomes a long table of exactly R * D rows.
\<close>

theorem melt_row_count:
  "length (melt t) = length (wrows t) * length (date_columns t)"
proof -
  let ?ps = "zip [0..<length (date_columns t)] (date_columns t)"
  have "length (melt t) = length ?ps * length (wrows t)"
    unfolding melt_def by (rule length_concat_const) auto
  then show ?thesis by (simp add: mult.commute)
qed

section \<open>One row per country and date in the global frame\<close>

lemma filter_eq_distinct:
  "distinct ks \<Longrightarrow> filter (\<lambda>k. k = a) ks = (if a \<in> set ks then [a] else [])"
  by (induction ks) auto

lemma filter_group_keys:
  "filter (\<lambda>k. k = a) (group_keys ks) = (if a \<in> set ks then [a] else [])"
  by (simp add: group_keys_def filter_eq_distinct)

lemma melt_row_sel [simp]:
  "Country (melt_row d j r) = wCountry r" "date (melt_row d j r) = d"
  by (simp_all add: melt_row_def)

lemma set_melt:
  "set (melt t) =
     {melt_row (date_columns t ! j) j r | j r. j < length (date_columns t) \<and> r \<in> set (wrows t)}"
  unfolding melt_def set_concat set_map set_zip
  by (fastforce simp: image_iff)

lemma melt_has_key:
  "(c, d) \<in> set (map (\<lambda>r. (Country r, date r)) (melt t)) \<longleftrightarrow>
     c \<in> wCountry ` set (wrows t) \<and> d \<in> set (date_columns t)"
proof
  assume "(c, d) \<in> set (map (\<lambda>r. (Country r, date r)) (melt t))"
  then obtain j r where "j < length (date_columns t)" "r \<in> set (wrows t)"
      "c = wCountry r" "d = date_columns t ! j"
    by (auto simp: set_melt)
  then show "c \<in> wCountry ` set (wrows t) \<and> d \<in> set (date_columns t)"
    by auto
next
  assume "c \<in> wCountry ` set (wrows t) \<and> d \<in> set (date_columns t)"
  then obtain r j where r: "r \<in> set (wrows t)" "c = wCountry r"
      and j: "j < length (date_columns t)" "d = date_columns t ! j"
    by (auto simp: in_set_conv_nth)
  then have "melt_row (date_columns t ! j) j r \<in> set (melt t)"
    unfolding set_melt by blast
  then show "(c, d) \<in> set (map (\<lambda>r. (Country r, date r)) (melt t))"
    using r j by (force simp: image_iff)
qed


lemma wrap64_id: "- (2 ^ 63) \<le> x \<Longrightarrow> x < 2 ^ 63 \<Longrightarrow> wrap64 x = x"
  by (simp add: wrap64_def)

lemma aggregate_country_sel [simp]:
  "Country (aggregate_country data k) = fst k"
  "date (aggregate_country data k) = snd k"
  "Province_State (aggregate_country data k) = Some ''<all>''"
  "metric (aggregate_country data k) =
     sum_Int64 (map metric (filter (\<lambda>r. (Country r, date r) = k) data))"
  by (simp_all add: aggregate_country_def Let_def)

lemma filter_grouped:
  "filter (\<lambda>r. Country r = c \<and> date r = d) (map (aggregate_country data) (group_keys ks)) =
     (if (c, d) \<in> set ks then [aggregate_country data (c, d)] else [])"
proof -
  have "filter (\<lambda>r. Country r = c \<and> date r = d) (map (aggregate_country data) (group_keys ks)) =
        map (aggregate_country data) (filter (\<lambda>k. k = (c, d)) (group_keys ks))"
    by (simp add: filter_map comp_def prod_eq_iff)
  then show ?thesis by (simp add: filter_group_keys)
qed

lemma filter_china:
  "filter (\<lambda>r. Country r = c \<and> date r = d) (filter (\<lambda>r. Country r = ''China'') rows) =
     (if c = ''China'' then filter (\<lambda>r. Country r = c \<and> date r = d) rows else [])"
  by (induction rows) auto

text \<open>
  C4, as amended. In the frame of \<^verbatim>\<open>load_data_global\<close>, the rows of a country \<open>c\<close> of
  the file on a date \<open>d\<close> of the header are: one aggregated row, whose Province/State is
  \<^verbatim>\<open><all>\<close>; for China, followed by the melted province rows themselves, unchanged; for
  any other country, nothing else. The metric of the aggregated row is the sum of the
  metric over the melted rows of \<open>c\<close> on \<open>d\<close> in 64-bit arithmetic (missing as zero): the
  exact sum reduced by \<open>wrap64\<close>, and the exact sum itself when that lies in the signed
  64-bit range.
\<close>

theorem global_frame_rows:
  assumes "c \<in> wCountry ` set (wrows t)" and "d \<in> set (date_columns t)"
  shows "filter (\<lambda>r. Country r = c \<and> date r = d) (load_data_global_frame t) =
           aggregate_country (melt t) (c, d) #
           (if c = ''China'' then filter (\<lambda>r. Country r = c \<and> date r = d) (melt t) else [])
         \<and> Province_State (aggregate_country (melt t) (c, d)) = Some ''<all>''
         \<and> metric (aggregate_country (melt t) (c, d)) =
             Some (wrap64 (sum_list (present (map metric
               (filter (\<lambda>r. Country r = c \<and> date r = d) (melt t))))))
         \<and> (- (2 ^ 63) \<le> sum_list (present (map metric
                (filter (\<lambda>r. Country r = c \<and> date r = d) (melt t))))
            \<and> sum_list (present (map metric
                (filter (\<lambda>r. Country r = c \<and> date r = d) (melt t)))) < 2 ^ 63 \<longrightarrow>
            metric (aggregate_country (melt t) (c, d)) =
              Some (sum_list (present (map metric
                (filter (\<lambda>r. Country r = c \<and> date r = d) (melt t))))))"
proof -
  have key: "(c, d) \<in> set (map (\<lambda>r. (Country r, date r)) (melt t))"
    using assms by (simp only: melt_has_key)
  have "filter (\<lambda>r. Country r = c \<and> date r = d) (load_data_global_frame t) =
        filter (\<lambda>r. Country r = c \<and> date r = d)
          (map (aggregate_country (melt t)) (group_keys (map (\<lambda>r. (Country r, date r)) (melt t))))
        @ filter (\<lambda>r. Country r = c \<and> date r = d) (filter (\<lambda>r. Country r = ''China'') (melt t))"
    by (simp add: load_data_global_frame_def Let_def)
  also have "\<dots> = aggregate_country (melt t) (c, d) #
      (if c = ''China'' then filter (\<lambda>r. Country r = c \<and> date r = d) (melt t) else [])"
    unfolding filter_grouped filter_china using key by simp
  finally show ?thesis
    by (simp add: sum_Int64_def prod_eq_iff wrap64_id)
qed

text \<open>
  C4 as stated fails where the exact sum leaves the 64-bit range: two provinces of China
  with \<open>2 ^ 62\<close> cases each give an aggregated row of \<open>- (2 ^ 63)\<close> cases.
\<close>

theorem global_frame_rows_counterexample:
  "filter (\<lambda>r. Country r = ''China'' \<and> date r = (2020, 1, 22)) (load_data_global_frame large_global) =
     [\<lparr>Country = ''China'', Province_State = Some ''<all>'', Lat = Some 35, Long = Some 114,
        date = (2020, 1, 22), metric = Some (- 9223372036854775808)\<rparr>,
      \<lparr>Country = ''China'', Province_State = Some ''Hubei'', Lat = Some 30, Long = Some 112,
        date = (2020, 1, 22), metric = Some 4611686018427387904\<rparr>,
      \<lparr>Country = ''China'', Province_State = Some ''Beijing'', Lat = Some 40, Long = Some 116,
        date = (2020, 1, 22), metric = Some 4611686018427387904\<rparr>]"
  by code_simp

text \<open>On the sample file: China keeps its provinces beside the total, Australia does not.\<close>

theorem global_frame_rows_witness:
  "filter (\<lambda>r. Country r = ''China'' \<and> date r = (2020, 1, 23)) (load_data_global_frame demo_global) =
     [\<lparr>Country = ''China'', Province_State = Some ''<all>'', Lat = Some 35, Long = Some 114,
        date = (2020, 1, 23), metric = Some 445\<rparr>,
      \<lparr>Country = ''China'', Province_State = Some ''Hubei'', Lat = Some 30, Long = Some 112,
        date = (2020, 1, 23), metric = Some 445\<rparr>,
      \<lparr>Country = ''China'', Province_State = Some ''Beijing'', Lat = Some 40, Long = Some 116,
        date = (2020, 1, 23), metric = None\<rparr>]
   \<and> filter (\<lambda>r. Country r = ''Australia'' \<and> date r = (2020, 1, 23)) (load_data_global_frame demo_global) =
     [\<lparr>Country = ''Australia'', Province_State = Some ''<all>'', Lat = Some (-39), Long = Some (289 / 2),
        date = (2020, 1, 23), metric = Some 3\<rparr>]
   \<and> metric (aggregate_country (melt demo_global) (''China'', (2020, 1, 23))) = Some 445"
proof -
  have m: "melt demo_global =
    [\<lparr>Country = ''China'', Province_State = Some ''Hubei'', Lat = Some 30, Long = Some 112,
        date = (2020, 1, 22), metric = Some 444\<rparr>,
     \<lparr>Country = ''Australia'', Province_State = Some ''Victoria'', Lat = Some (-37), Long = Some 144,
        date = (2020, 1, 22), metric = Some 0\<rparr>,
     \<lparr>Country = ''China'', Province_State = Some ''Beijing'', Lat = Some 40, Long = Some 116,
        date = (2020, 1, 22), metric = Some 14\<rparr>,
     \<lparr>Country = ''Australia'', Province_State = Some ''Tasmania'', Lat = Some (-41), Long = Some 145,
        date = (2020, 1, 22), metric = Some 0\<rparr>,
     \<lparr>Country = ''US'', Province_State = None, Lat = Some 40, Long = Some (-100),
        date = (2020, 1, 22), metric = Some 1\<rparr>,
     \<lparr>Country = ''China'', Province_State = Some ''Hubei'', Lat = Some 30, Long = Some 112,
        date = (2020, 1, 23), metric = Some 445\<rparr>,
     \<lparr>Country = ''Australia'', Province_State = Some ''Victoria'', Lat = Some (-37), Long = Some 144,
        date = (2020, 1, 23), metric = Some 1\<rparr>,
     \<lparr>Country = ''China'', Province_State = Some ''Beijing'', Lat = Some 40, Long = Some 116,
        date = (2020, 1, 23), metric = None\<rparr>,
     \<lparr>Country = ''Australia'', Province_State = Some ''Tasmania'', Lat = Some (-41), Long = Some 145,
        date = (2020, 1, 23), metric = Some 2\<rparr>,
     \<lparr>Country = ''US'', Province_State = None, Lat = Some 40, Long = Some (-100),
        date = (2020, 1, 23), metric = Some 5\<rparr>]"
    by (simp add: melt_def demo_global_def melt_row_def cell_def upt_rec)
  have c1: "''China'' \<in> wCountry ` set (wrows demo_global)"
    and c2: "''Australia'' \<in> wCountry ` set (wrows demo_global)"
    and d: "(2020, 1, 23) \<in> set (date_columns demo_global)"
    by (simp_all add: demo_global_def)
  show ?thesis
    using global_frame_rows [OF c1 d] global_frame_rows [OF c2 d]
    by (simp add: m aggregate_country_def median_skipna_def sum_Int64_def wrap64_def)
qed

section \<open>The merge is an inner join on all shared columns\<close>

lemma merge_key_merge_rows [simp]: "merge_key (merge_rows l r) = merge_key l"
  by (simp add: merge_key_def merge_rows_def)

lemma set_merge:
  "set (merge A B) = {merge_rows a b | a b. a \<in> set A \<and> b \<in> set B \<and> merge_key a = merge_key b}"
  unfolding merge_def by auto metis

lemma length_merge:
  "length (merge A B) =
     sum_list (map (\<lambda>l. length (filter (\<lambda>r. merge_key r = merge_key l) B)) A)"
  by (simp add: merge_def length_concat comp_def)

lemma count_indicator:
  "sum_list (map (\<lambda>x. if P x then 1 else 0) xs) = length (filter P xs)"
  by (induction xs) auto

lemma count_matches_swap:
  "sum_list (map (\<lambda>l. length (filter (\<lambda>r. f r = g l) B)) A) =
   sum_list (map (\<lambda>r. length (filter (\<lambda>l. f r = g l) A)) B)"
proof (induction A)
  case Nil
  then show ?case by simp
next
  case (Cons a A)
  have "sum_list (map (\<lambda>r. length (filter (\<lambda>l. f r = g l) (a # A))) B) =
        sum_list (map (\<lambda>r. (if f r = g a then 1 else 0) + length (filter (\<lambda>l. f r = g l) A)) B)"
    by (rule arg_cong [where f = sum_list], rule map_cong) auto
  also have "\<dots> = length (filter (\<lambda>r. f r = g a) B) +
        sum_list (map (\<lambda>r. length (filter (\<lambda>l. f r = g l) A)) B)"
    by (simp add: sum_list_addf count_indicator)
  finally show ?case using Cons.IH by simp
qed

lemma matches_le_one:
  "distinct (map f xs) \<Longrightarrow> length (filter (\<lambda>x. f x = k) xs) \<le> 1"
proof (induction xs)
  case Nil
  then show ?case by simp
next
  case (Cons a xs)
  show ?case
  proof (cases "f a = k")
    case True
    with Cons.prems have "k \<notin> f ` set xs" by auto
    then have "filter (\<lambda>x. f x = k) xs = []"
      by (auto simp: filter_empty_conv)
    with True show ?thesis by simp
  next
    case False
    with Cons show ?thesis by simp
  qed
qed

lemma matches_eq_one:
  "distinct (map f xs) \<Longrightarrow> k \<in> f ` set xs \<Longrightarrow> length (filter (\<lambda>x. f x = k) xs) = 1"
proof (induction xs)
  case Nil
  then show ?case by simp
next
  case (Cons a xs)
  show ?case
  proof (cases "f a = k")
    case True
    with Cons.prems have "k \<notin> f ` set xs" by auto
    then have "filter (\<lambda>x. f x = k) xs = []"
      by (auto simp: filter_empty_conv)
    with True show ?thesis by simp
  next
    case False
    with Cons show ?thesis by auto
  qed
qed

lemma sum_list_le_length:
  "(\<And>x. x \<in> set xs \<Longrightarrow> h x \<le> (1::nat)) \<Longrightarrow> sum_list (map h xs) \<le> length xs"
proof (induction xs)
  case Nil
  then show ?case by simp
next
  case (Cons a xs)
  have "h a \<le> 1" by (rule Cons.prems) simp
  moreover have "sum_list (map h xs) \<le> length xs"
    by (rule Cons.IH, rule Cons.prems, simp)
  ultimately show ?case by simp
qed

lemma sum_list_eq_length:
  "(\<And>x. x \<in> set xs \<Longrightarrow> h x = (1::nat)) \<Longrightarrow> sum_list (map h xs) = length xs"
  by (induction xs) auto

lemma merge_le_left:
  assumes "distinct (map merge_key B)"
  shows "length (merge A B) \<le> length A"
  unfolding length_merge
  by (rule sum_list_le_length) (rule matches_le_one [OF assms])

lemma merge_le_right:
  assumes "distinct (map merge_key A)"
  shows "length (merge A B) \<le> length B"
proof -
  have "length (merge A B) =
      sum_list (map (\<lambda>r. length (filter (\<lambda>l. merge_key l = merge_key r) A)) B)"
    unfolding length_merge
    by (subst count_matches_swap) (simp add: eq_commute)
  also have "\<dots> \<le> length B"
    by (rule sum_list_le_length) (rule matches_le_one [OF assms])
  finally show ?thesis .
qed

lemma merge_aligned:
  assumes "distinct (map merge_key A)" "distinct (map merge_key B)"
    and "set (map merge_key A) = set (map merge_key B)"
  shows "length (merge A B) = length A" "length A = length B"
proof -
  show "length (merge A B) = length A"
    unfolding length_merge
  proof (rule sum_list_eq_length)
    fix l assume "l \<in> set A"
    then have "merge_key l \<in> merge_key ` set B" using assms(3) by auto
    then show "length (filter (\<lambda>r. merge_key r = merge_key l) B) = 1"
      by (rule matches_eq_one [OF assms(2)])
  qed
  have "length A = card (set (map merge_key A))"
    using assms(1) by (metis distinct_card length_map)
  also have "\<dots> = length B"
    using assms(2,3) by (metis distinct_card length_map)
  finally show "length A = length B" .
qed

text \<open>
  C3, as amended. \<^verbatim>\<open>merge\<close> is an inner join on every shared column: Country,
  Province/State, Lat, Long and date. The keys of the merged rows are exactly the keys
  present in both inputs. When no key repeats within either input, the merged table is
  no longer than the shorter input, and as long as both when their key sets are equal.
\<close>

theorem merge_inner_join:
  "set (map merge_key (merge A B)) = set (map merge_key A) \<inter> set (map merge_key B)
   \<and> (distinct (map merge_key A) \<and> distinct (map merge_key B) \<longrightarrow>
        length (merge A B) \<le> min (length A) (length B)
        \<and> (set (map merge_key A) = set (map merge_key B) \<longrightarrow>
             length (merge A B) = min (length A) (length B)))"
proof -
  have keys: "set (map merge_key (merge A B)) = set (map merge_key A) \<inter> set (map merge_key B)"
  proof -
    have "merge_key ` set (merge A B) = merge_key ` set A \<inter> merge_key ` set B"
    proof (intro equalityI subsetI)
      fix k assume "k \<in> merge_key ` set (merge A B)"
      then obtain a b where "a \<in> set A" "b \<in> set B" "merge_key a = merge_key b"
          "k = merge_key (merge_rows a b)"
        unfolding set_merge by blast
      then show "k \<in> merge_key ` set A \<inter> merge_key ` set B"
        by (metis IntI imageI merge_key_merge_rows)
    next
      fix k assume "k \<in> merge_key ` set A \<inter> merge_key ` set B"
      then obtain a b where ab: "a \<in> set A" "b \<in> set B" "k = merge_key a" "merge_key a = merge_key b"
        by auto
      then have "merge_rows a b \<in> set (merge A B)"
        unfolding set_merge by blast
      then show "k \<in> merge_key ` set (merge A B)"
        using ab(3) by (metis imageI merge_key_merge_rows)
    qed
    then show ?thesis by simp
  qed
  show ?thesis
    using keys merge_le_left [of B A] merge_le_right [of A B] merge_aligned [of A B]
    by auto
qed

text \<open>
  C3 as stated fails twice. Two rows that agree on (Country, Province/State, date) and
  differ in Lat are not joined; and a key that repeats in both inputs yields every pairing,
  more rows than either input has.
\<close>

theorem merge_inner_join_counterexample:
  "(Country conf_row, Province_State conf_row, date conf_row) =
     (Country death_row, Province_State death_row, date death_row)
   \<and> merge [conf_row] [death_row] = []
   \<and> length (merge [conf_row, conf_row] [death_same, death_same]) = 4
   \<and> min (length [conf_row, conf_row]) (length [death_same, death_same]) = 2"
  by (simp add: merge_def merge_key_def conf_row_def death_row_def death_same_def)

text \<open>The amended statement on aligned and on partly aligned sample frames.\<close>

theorem merge_inner_join_witness:
  "distinct (map merge_key [conf_row, conf_next]) \<and> distinct (map merge_key [death_same])
   \<and> distinct (map merge_key [death_same, death_next])
   \<and> set (map merge_key [conf_row, conf_next]) = set (map merge_key [death_same, death_next])
   \<and> length (merge [conf_row, conf_next] [death_same]) \<le> 1
   \<and> length (merge [conf_row, conf_next] [death_same, death_next]) = 2
   \<and> set (map merge_key (merge [conf_row, conf_next] [death_same])) = {merge_key death_same}"
proof -
  have d: "distinct (map merge_key [conf_row, conf_next])" "distinct (map merge_key [death_same])"
    "distinct (map merge_key [death_same, death_next])"
    by (simp_all add: merge_key_def conf_row_def conf_next_def death_same_def death_next_def)
  have s: "set (map merge_key [conf_row, conf_next]) = set (map merge_key [death_same, death_next])"
    by (simp add: merge_key_def conf_row_def conf_next_def death_same_def death_next_def)
  have k: "set (map merge_key [conf_row, conf_next]) \<inter> set (map merge_key [death_same]) = {merge_key death_same}"
    by (simp add: merge_key_def conf_row_def conf_next_def death_same_def death_next_def)
  show ?thesis
    using merge_inner_join [of "[conf_row, conf_next]" "[death_same]"]
      merge_inner_join [of "[conf_row, conf_next]" "[death_same, death_next]"] d s k
    by simp
qed

section \<open>The cache\<close>

lemma loader_world [simp]:
  "snd (load_data_global rem f w) = w\<lparr>fetched := fetched w @ [f]\<rparr>"
  "snd (load_data_us rem f w) = w\<lparr>fetched := fetched w @ [f]\<rparr>"
  by (simp_all add: load_data_global_def load_data_us_def Let_def split: option.splits sum.splits)

lemma loader_error:
  "load_data_global rem f w = (Inl e, w') \<Longrightarrow> (\<exists>n. e = FetchError n) \<or> (\<exists>m. e = KeyError m)"
  "load_data_us rem f w = (Inl e, w') \<Longrightarrow> (\<exists>n. e = FetchError n) \<or> (\<exists>m. e = KeyError m)"
  by (auto simp: load_data_global_def load_data_us_def global_columns_def us_columns_def
      melt_columns_def Let_def split: option.splits sum.splits list.splits if_splits)

lemma to_pickle_cases:
  "to_pickle data w = (res, w') \<Longrightarrow>
     (disk w = Writes \<and> res = Inr () \<and> w' = w\<lparr>pickle := Stored data\<rparr>) \<or>
     (disk w = FailsToOpen \<and> res = Inl OSError \<and> w' = w) \<or>
     (disk w = FailsMidway \<and> res = Inl OSError \<and> w' = w\<lparr>pickle := Truncated\<rparr>)"
  by (cases "disk w") (auto simp: to_pickle_def)

text \<open>
  What \<^verbatim>\<open>refresh_data\<close> does, by the step that ends it: one of the four loads fails
  and the state differs only in the fetch log, or all four succeed and the write decides.
\<close>

lemma refresh_data_cases:
  assumes "refresh_data rem w = (res, w')"
  shows "(\<exists>e. res = Inl e \<and> ((\<exists>n. e = FetchError n) \<or> (\<exists>m. e = KeyError m)) \<and>
            pickle w' = pickle w \<and> disk w' = disk w)
       \<or> (\<exists>data. pickle w' = (case disk w of Writes \<Rightarrow> Stored data | FailsToOpen \<Rightarrow> pickle w
                                            | FailsMidway \<Rightarrow> Truncated) \<and>
            res = (case disk w of Writes \<Rightarrow> Inr data | _ \<Rightarrow> Inl OSError) \<and>
            fetched w' = fetched w @
              [''time_series_covid19_confirmed_global.csv'',
               ''time_series_covid19_deaths_global.csv'',
               ''time_series_covid19_confirmed_US.csv'', ''time_series_covid19_deaths_US.csv''])"
proof -
  let ?f1 = "''time_series_covid19_confirmed_global.csv''"
  let ?f2 = "''time_series_covid19_deaths_global.csv''"
  let ?f3 = "''time_series_covid19_confirmed_US.csv''"
  let ?f4 = "''time_series_covid19_deaths_US.csv''"
  let ?w1 = "w\<lparr>fetched := fetched w @ [?f1]\<rparr>"
  let ?w2 = "?w1\<lparr>fetched := fetched ?w1 @ [?f2]\<rparr>"
  let ?w3 = "?w2\<lparr>fetched := fetched ?w2 @ [?f3]\<rparr>"
  let ?w4 = "?w3\<lparr>fetched := fetched ?w3 @ [?f4]\<rparr>"
  obtain r1 where l1: "load_data_global rem ?f1 w = (r1, ?w1)"
    by (metis loader_world(1) prod.collapse)
  obtain r2 where l2: "load_data_global rem ?f2 ?w1 = (r2, ?w2)"
    by (metis loader_world(1) prod.collapse)
  obtain r3 where l3: "load_data_us rem ?f3 ?w2 = (r3, ?w3)"
    by (metis loader_world(2) prod.collapse)
  obtain r4 where l4: "load_data_us rem ?f4 ?w3 = (r4, ?w4)"
    by (metis loader_world(2) prod.collapse)
  show ?thesis
  proof (cases r1)
    case (Inl e)
    with l1 assms have "res = Inl e" "w' = ?w1" by (simp_all add: refresh_data_def)
    with loader_error(1) [of rem ?f1 w e ?w1] l1 Inl show ?thesis by simp
  next
    case gc: (Inr gc)
    show ?thesis
    proof (cases r2)
      case (Inl e)
      with l1 l2 gc assms have "res = Inl e" "w' = ?w2" by (simp_all add: refresh_data_def)
      with loader_error(1) [of rem ?f2 ?w1 e ?w2] l2 Inl show ?thesis by simp
    next
      case gd: (Inr gd)
      show ?thesis
      proof (cases r3)
        case (Inl e)
        with l1 l2 l3 gc gd assms have "res = Inl e" "w' = ?w3"
          by (simp_all add: refresh_data_def)
        with loader_error(2) [of rem ?f3 ?w2 e ?w3] l3 Inl show ?thesis by simp
      next
        case uc: (Inr uc)
        show ?thesis
        proof (cases r4)
          case (Inl e)
          with l1 l2 l3 l4 gc gd uc assms have "res = Inl e" "w' = ?w4"
            by (simp_all add: refresh_data_def)
          with loader_error(2) [of rem ?f4 ?w3 e ?w4] l4 Inl show ?thesis by simp
        next
          case ud: (Inr ud)
          let ?data = "range_index (merge gc gd) @ range_index (merge uc ud)"
          obtain r5 w5 where p: "to_pickle ?data ?w4 = (r5, w5)"
            by (metis prod.collapse)
          with l1 l2 l3 l4 gc gd uc ud assms
          have r: "(res, w') = (case r5 of Inl e \<Rightarrow> (Inl e, w5) | Inr _ \<Rightarrow> (Inr ?data, w5))"
            by (simp add: refresh_data_def Let_def split: sum.splits)
          from to_pickle_cases [OF p] r have
            "pickle w' = (case disk w of Writes \<Rightarrow> Stored ?data | FailsToOpen \<Rightarrow> pickle w
                            | FailsMidway \<Rightarrow> Truncated) \<and>
             res = (case disk w of Writes \<Rightarrow> Inr ?data | _ \<Rightarrow> Inl OSError) \<and>
             fetched w' = fetched w @ [?f1, ?f2, ?f3, ?f4]"
            by auto
          then show ?thesis by blast
        qed
      qed
    qed
  qed
qed

lemma refresh_data_Inr:
  assumes "refresh_data rem w = (Inr t, w')"
  shows "pickle w' = Stored t \<and>
     fetched w' = fetched w @
       [''time_series_covid19_confirmed_global.csv'', ''time_series_covid19_deaths_global.csv'',
        ''time_series_covid19_confirmed_US.csv'', ''time_series_covid19_deaths_US.csv'']"
  using refresh_data_cases [OF assms] by (cases "disk w") auto

lemma refresh_data_Inl:
  assumes "refresh_data rem w = (Inl e, w')"
  shows "(((\<exists>n. e = FetchError n) \<or> (\<exists>m. e = KeyError m)) \<and> pickle w' = pickle w) \<or>
     (e = OSError \<and> disk w = FailsToOpen \<and> pickle w' = pickle w) \<or>
     (e = OSError \<and> disk w = FailsMidway \<and> pickle w' = Truncated)"
  using refresh_data_cases [OF assms] by (cases "disk w") auto

text \<open>
  C7, as amended. \<^verbatim>\<open>refresh_data\<close> writes the pickle after the four loads and the
  merges, as its last step. When a load fails (a download or parse that raises, a header
  that lacks a column) the pickle is the one it found. When all loads succeed the write
  decides: a write that completes leaves the whole table that is returned; a write that
  cannot open the file leaves the pickle as found; a write that fails midway leaves a
  truncated file, neither the table found nor the new one.
\<close>

theorem refresh_keeps_snapshot_on_failure:
  "(refresh_data rem w = (Inl e, w') \<longrightarrow>
      (((\<exists>n. e = FetchError n) \<or> (\<exists>m. e = KeyError m)) \<and> pickle w' = pickle w) \<or>
      (e = OSError \<and> disk w = FailsToOpen \<and> pickle w' = pickle w) \<or>
      (e = OSError \<and> disk w = FailsMidway \<and> pickle w' = Truncated))
   \<and> (refresh_data rem w = (Inr t, w') \<longrightarrow> pickle w' = Stored t)"
  using refresh_data_Inl [of rem w e w'] refresh_data_Inr [of rem w t w'] by blast


lemma sample_headers:
  "global_columns (header demo_global) = Inr ()"
  "global_columns (header demo_global_deaths) = Inr ()"
  "us_columns (header demo_us) = Inr ()"
  "us_columns (header demo_us_deaths) = Inr ()"
  by (simp_all add: global_columns_def us_columns_def melt_columns_def rename_def id_vars_def
      demo_global_def demo_global_deaths_def demo_us_def demo_us_deaths_def)

lemma refresh_demo:
  "disk w = Writes \<Longrightarrow>
   refresh_data demo_remote w =
     (Inr demo_unified,
      w\<lparr>fetched := fetched w @
          [''time_series_covid19_confirmed_global.csv'', ''time_series_covid19_deaths_global.csv'',
           ''time_series_covid19_confirmed_US.csv'', ''time_series_covid19_deaths_US.csv''],
        pickle := Stored demo_unified\<rparr>)"
  by (simp add: refresh_data_def load_data_global_def load_data_us_def demo_remote_def
      demo_unified_def to_pickle_def sample_headers Let_def)

lemma refresh_full_disk:
  "disk w = FailsMidway \<Longrightarrow>
   refresh_data demo_remote w =
     (Inl OSError,
      w\<lparr>fetched := fetched w @
          [''time_series_covid19_confirmed_global.csv'', ''time_series_covid19_deaths_global.csv'',
           ''time_series_covid19_confirmed_US.csv'', ''time_series_covid19_deaths_US.csv''],
        pickle := Truncated\<rparr>)"
  by (simp add: refresh_data_def load_data_global_def load_data_us_def demo_remote_def
      to_pickle_def sample_headers Let_def)

lemma refresh_broken:
  "refresh_data broken_remote w =
     (Inl (FetchError ''time_series_covid19_deaths_US.csv''),
      w\<lparr>fetched := fetched w @
          [''time_series_covid19_confirmed_global.csv'', ''time_series_covid19_deaths_global.csv'',
           ''time_series_covid19_confirmed_US.csv'', ''time_series_covid19_deaths_US.csv'']\<rparr>)"
  by (simp add: refresh_data_def load_data_global_def load_data_us_def broken_remote_def
      sample_headers Let_def)

lemma refresh_headless:
  "refresh_data headless_remote w =
     (Inl (KeyError [''Country'']),
      w\<lparr>fetched := fetched w @ [''time_series_covid19_confirmed_global.csv'']\<rparr>)"
  by (simp add: refresh_data_def load_data_global_def headless_remote_def global_columns_def
      melt_columns_def rename_def id_vars_def Let_def)

text \<open>
  C7 as stated fails at the write: the four files load, the disk runs full during
  \<^verbatim>\<open>to_pickle\<close>, and the snapshot that was there is replaced by a truncated file.
\<close>

theorem refresh_keeps_snapshot_on_failure_counterexample:
  "pickle full_disk_cache = Stored stale_table
   \<and> fst (refresh_data demo_remote full_disk_cache) = Inl OSError
   \<and> pickle (snd (refresh_data demo_remote full_disk_cache)) = Truncated"
proof -
  have "disk full_disk_cache = FailsMidway" by (simp add: full_disk_cache_def)
  from refresh_full_disk [OF this] show ?thesis by (simp add: full_disk_cache_def)
qed

text \<open>
  A refresh over a stale snapshot that fails at a download, one that fails at a header,
  one that fails during the write, and one that succeeds.
\<close>

theorem refresh_keeps_snapshot_on_failure_witness:
  "fst (refresh_data broken_remote stale_cache) = Inl (FetchError ''time_series_covid19_deaths_US.csv'')
   \<and> pickle (snd (refresh_data broken_remote stale_cache)) = pickle stale_cache
   \<and> fst (refresh_data headless_remote stale_cache) = Inl (KeyError [''Country''])
   \<and> pickle (snd (refresh_data headless_remote stale_cache)) = pickle stale_cache
   \<and> fst (refresh_data demo_remote full_disk_cache) = Inl OSError
   \<and> pickle (snd (refresh_data demo_remote full_disk_cache)) = Truncated
   \<and> fst (refresh_data demo_remote stale_cache) = Inr demo_unified
   \<and> pickle (snd (refresh_data demo_remote stale_cache)) = Stored demo_unified"
proof -
  have d: "disk stale_cache = Writes" "disk full_disk_cache = FailsMidway"
    by (simp_all add: stale_cache_def full_disk_cache_def)
  note r = refresh_broken [of stale_cache] refresh_headless [of stale_cache]
    refresh_full_disk [OF d(2)] refresh_demo [OF d(1)]
  show ?thesis
    using
      refresh_keeps_snapshot_on_failure [of broken_remote stale_cache
        "FetchError ''time_series_covid19_deaths_US.csv''"
        "snd (refresh_data broken_remote stale_cache)"]
      refresh_keeps_snapshot_on_failure [of headless_remote stale_cache
        "KeyError [''Country'']" "snd (refresh_data headless_remote stale_cache)"]
      refresh_keeps_snapshot_on_failure [of demo_remote full_disk_cache OSError
        "snd (refresh_data demo_remote full_disk_cache)"]
      refresh_keeps_snapshot_on_failure [of demo_remote stale_cache _
        "snd (refresh_data demo_remote stale_cache)" demo_unified]
    by (simp add: r d)
qed


section \<open>The join on the row labels\<close>

lemma length_diff [simp]: "length (diff vs) = length vs"
  by (cases vs) simp_all

lemma length_fillna0 [simp]: "length (fillna0 vs) = length vs"
  by (simp add: fillna0_def)

lemma length_simple_moving_average [simp]: "length (simple_moving_average vs n) = length vs"
  by (simp add: simple_moving_average_def)

lemma length_new_cases [simp]: "length (new_cases data) = length data"
  by (simp add: new_cases_def)

lemma filter_label_absent:
  "l \<notin> set ls \<Longrightarrow> filter (\<lambda>n. fst n = l) (zip ls vs) = []"
  by (auto simp: filter_empty_conv dest: set_zip_leftD)

lemma join_Cons:
  "join (r # rs) new = map (\<lambda>n. (r, snd n)) (filter (\<lambda>n. fst n = flabel r) new) @ join rs new"
  by (simp add: join_def)

lemma join_zip_suffix:
  "distinct (map flabel (pre @ data)) \<Longrightarrow> length pvals = length pre \<Longrightarrow>
   length vals = length data \<Longrightarrow>
   join data (zip (map flabel (pre @ data)) (pvals @ vals)) = zip data vals"
proof (induction data arbitrary: pre pvals vals)
  case Nil
  then show ?case by (simp add: join_def)
next
  case (Cons r rs)
  from Cons.prems(3) obtain v vs where vals: "vals = v # vs" "length vs = length rs"
    by (cases vals) auto
  let ?new = "zip (map flabel (pre @ r # rs)) (pvals @ vals)"
  have new: "?new = zip (map flabel pre) pvals @ (flabel r, v) # zip (map flabel rs) vs"
    using Cons.prems(2) vals by simp
  have a: "flabel r \<notin> set (map flabel pre)" and b: "flabel r \<notin> set (map flabel rs)"
    using Cons.prems(1) by auto
  have first: "filter (\<lambda>n. fst n = flabel r) ?new = [(flabel r, v)]"
    unfolding new by (simp add: filter_label_absent [OF a] filter_label_absent [OF b])
  have "join rs (zip (map flabel ((pre @ [r]) @ rs)) ((pvals @ [v]) @ vs)) = zip rs vs"
    using Cons.prems vals by (intro Cons.IH) simp_all
  then have rest: "join rs ?new = zip rs vs"
    using vals by simp
  show ?case
    unfolding join_Cons first rest using vals by simp
qed

lemma join_distinct:
  assumes "distinct (map flabel data)" and "length vals = length data"
  shows "join data (zip (map flabel data) vals) = zip data vals"
  using join_zip_suffix [of "[]" data "[]" vals] assms by simp

lemma join_new_cases:
  assumes "distinct (map flabel data)"
  shows "join data (new_cases data) =
     zip data (zip (fillna0 (diff (map fCumConfirmed data))) (fillna0 (diff (map fCumDeaths data))))"
  unfolding new_cases_def by (rule join_distinct [OF assms]) simp

section \<open>The columns of \<^verbatim>\<open>filtered_data\<close>\<close>

text \<open>The frame that \<^verbatim>\<open>filtered_data\<close> returns when every row is joined with its own differences.\<close>

lemma filtered_data_positional:
  assumes "distinct (map flabel (select_rows d c s))"
  shows "filtered_data d c s =
     map join_row
       (zip (zip (select_rows d c s)
               (zip (fillna0 (diff (map fCumConfirmed (select_rows d c s))))
                    (fillna0 (diff (map fCumDeaths (select_rows d c s))))))
            (zip (simple_moving_average (fillna0 (diff (map fCumDeaths (select_rows d c s)))) 7)
                 (simple_moving_average (fillna0 (diff (map fCumConfirmed (select_rows d c s)))) 7)))"
proof -
  let ?data = "select_rows d c s"
  let ?nc = "fillna0 (diff (map fCumConfirmed ?data))"
  let ?nd = "fillna0 (diff (map fCumDeaths ?data))"
  have nd: "map (\<lambda>x. snd (snd x)) (zip ?data (zip ?nc ?nd)) = ?nd"
    by (simp add: list_eq_iff_nth_eq)
  have nc: "map (\<lambda>x. fst (snd x)) (zip ?data (zip ?nc ?nd)) = ?nc"
    by (simp add: list_eq_iff_nth_eq)
  show ?thesis
    unfolding filtered_data_def Let_def join_new_cases [OF assms] nd nc ..
qed

lemma join_columns:
  assumes "length b = length a" "length c = length a" "length d = length a" "length e = length a"
  shows "map fdate (map join_row (zip (zip a (zip b c)) (zip d e))) = map fdate a"
    and "map flabel (map join_row (zip (zip a (zip b c)) (zip d e))) = map flabel a"
    and "map fCumConfirmed (map join_row (zip (zip a (zip b c)) (zip d e))) = map fCumConfirmed a"
    and "map fCumDeaths (map join_row (zip (zip a (zip b c)) (zip d e))) = map fCumDeaths a"
    and "map NewConfirmed (map join_row (zip (zip a (zip b c)) (zip d e))) = b"
    and "map NewDeaths (map join_row (zip (zip a (zip b c)) (zip d e))) = c"
    and "map NewDeathsSMA7 (map join_row (zip (zip a (zip b c)) (zip d e))) = d"
    and "map NewConfirmedSMA7 (map join_row (zip (zip a (zip b c)) (zip d e))) = e"
  using assms by (simp_all add: list_eq_iff_nth_eq join_row_def)

lemma filtered_columns:
  assumes "distinct (map flabel (select_rows d c s))"
  shows "map fdate (filtered_data d c s) = map fdate (select_rows d c s)"
  "map fCumConfirmed (filtered_data d c s) = map fCumConfirmed (select_rows d c s)"
  "map fCumDeaths (filtered_data d c s) = map fCumDeaths (select_rows d c s)"
  "map NewConfirmed (filtered_data d c s) = fillna0 (diff (map fCumConfirmed (select_rows d c s)))"
  "map NewDeaths (filtered_data d c s) = fillna0 (diff (map fCumDeaths (select_rows d c s)))"
  "map NewConfirmedSMA7 (filtered_data d c s) =
     simple_moving_average (fillna0 (diff (map fCumConfirmed (select_rows d c s)))) 7"
  "map NewDeathsSMA7 (filtered_data d c s) =
     simple_moving_average (fillna0 (diff (map fCumDeaths (select_rows d c s)))) 7"
  unfolding filtered_data_positional [OF assms]
  by (rule join_columns; simp)+

lemma length_filtered_data:
  "distinct (map flabel (select_rows d c s)) \<Longrightarrow>
   length (filtered_data d c s) = length (select_rows d c s)"
  using filtered_columns(1) [of d c s] by (metis length_map)

text \<open>The labels of the two branches.\<close>

lemma sum_by_date_sel [simp]:
  "flabel (sum_by_date data ik) = fst ik"
  "fdate (sum_by_date data ik) = snd ik"
  "fCumConfirmed (sum_by_date data ik) =
     sum_Int64 (map CumConfirmed (filter (\<lambda>r. date r = snd ik) data))"
  "fCumDeaths (sum_by_date data ik) =
     sum_Int64 (map CumDeaths (filter (\<lambda>r. date r = snd ik) data))"
  by (simp_all add: sum_by_date_def Let_def)

lemma map_snd_indexed:
  "length js = length ks \<Longrightarrow> map (\<lambda>x. g (snd x)) (zip js ks) = map g ks"
  by (induction js ks rule: list_induct2) simp_all

lemma select_all_labels:
  "map flabel (select_rows d c ''<all>'') =
     [0..<length (group_keys (map date (filter (\<lambda>r. Country r = c) d)))]"
  by (simp add: select_rows_def Let_def comp_def)

lemma select_all_distinct: "distinct (map flabel (select_rows d c ''<all>''))"
  by (simp only: select_all_labels distinct_upt)

lemma select_region_labels:
  "s \<noteq> ''<all>'' \<Longrightarrow>
     map flabel (select_rows d c s) =
     map label (filter (\<lambda>r. Country r = c \<and> Province_State r = Some s) d)"
  by (simp add: select_rows_def Let_def comp_def keep_row_def)

lemma select_all_dates:
  "map fdate (select_rows d c ''<all>'') = group_keys (map date (filter (\<lambda>r. Country r = c) d))"
  by (simp add: select_rows_def Let_def comp_def)

lemma select_all_confirmed:
  "map fCumConfirmed (select_rows d c ''<all>'') =
     map (\<lambda>k. Some (wrap64 (sum_list (present (map CumConfirmed
            (filter (\<lambda>r. Country r = c \<and> date r = k) d))))))
         (group_keys (map date (filter (\<lambda>r. Country r = c) d)))"
proof -
  let ?keys = "group_keys (map date (filter (\<lambda>r. Country r = c) d))"
  let ?total = "\<lambda>k. Some (wrap64 (sum_list (present (map CumConfirmed
            (filter (\<lambda>r. Country r = c \<and> date r = k) d)))))"
  have "map fCumConfirmed (select_rows d c ''<all>'') =
      map (\<lambda>x. ?total (snd x)) (zip [0..<length ?keys] ?keys)"
    unfolding select_rows_def Let_def by (simp add: sum_Int64_def)
  also have "\<dots> = map ?total ?keys"
    by (rule map_snd_indexed) simp
  finally show ?thesis .
qed

lemma select_all_deaths:
  "map fCumDeaths (select_rows d c ''<all>'') =
     map (\<lambda>k. Some (wrap64 (sum_list (present (map CumDeaths
            (filter (\<lambda>r. Country r = c \<and> date r = k) d))))))
         (group_keys (map date (filter (\<lambda>r. Country r = c) d)))"
proof -
  let ?keys = "group_keys (map date (filter (\<lambda>r. Country r = c) d))"
  let ?total = "\<lambda>k. Some (wrap64 (sum_list (present (map CumDeaths
            (filter (\<lambda>r. Country r = c \<and> date r = k) d)))))"
  have "map fCumDeaths (select_rows d c ''<all>'') =
      map (\<lambda>x. ?total (snd x)) (zip [0..<length ?keys] ?keys)"
    unfolding select_rows_def Let_def by (simp add: sum_Int64_def)
  also have "\<dots> = map ?total ?keys"
    by (rule map_snd_indexed) simp
  finally show ?thesis .
qed

lemma select_region_dates:
  "s \<noteq> ''<all>'' \<Longrightarrow>
     map fdate (select_rows d c s) =
     map date (filter (\<lambda>r. Country r = c \<and> Province_State r = Some s) d)"
  by (simp add: select_rows_def Let_def comp_def keep_row_def)

lemma select_region_confirmed:
  "s \<noteq> ''<all>'' \<Longrightarrow>
     map fCumConfirmed (select_rows d c s) =
     map CumConfirmed (filter (\<lambda>r. Country r = c \<and> Province_State r = Some s) d)"
  by (simp add: select_rows_def Let_def comp_def keep_row_def)

lemma select_region_deaths:
  "s \<noteq> ''<all>'' \<Longrightarrow>
     map fCumDeaths (select_rows d c s) =
     map CumDeaths (filter (\<lambda>r. Country r = c \<and> Province_State r = Some s) d)"
  by (simp add: select_rows_def Let_def comp_def keep_row_def)

lemma strict_sorted_group_keys: "sorted_wrt (<) (group_keys ks)"
  by (simp add: group_keys_def strict_sorted_iff)

lemma region_labels_distinct:
  "s \<noteq> ''<all>'' \<Longrightarrow>
   distinct (map label (filter (\<lambda>r. Country r = c \<and> Province_State r = Some s) d)) \<Longrightarrow>
   distinct (map flabel (select_rows d c s))"
  by (simp add: select_region_labels)

text \<open>A selection whose labels repeat: each of the four rows is joined with two rows.\<close>

lemma repeated_labels_example:
  "length (filtered_data relabelled_table ''Testland'' ''North'') = 8"
  by (simp add: filtered_data_def select_rows_def new_cases_def join_def relabelled_table_def
      region_row_def keep_row_def fillna0_def Let_def)

section \<open>The Testland scenario\<close>

lemma testland_cum:
  "map fCumConfirmed (select_rows (testland lbl la lo dth) ''Testland'' ''<all>'') =
     [Some 1, Some 1, Some 2, Some 4, Some 7, Some 11, Some 16, Some 22]"
  by (simp add: select_all_confirmed testland_def testland_row_def group_keys_def wrap64_def)

lemma testland_new:
  "fillna0 (diff [Some 1, Some 1, Some 2, Some 4, Some 7, Some 11, Some 16, Some 22]) =
     [Some 0, Some 0, Some 1, Some 2, Some 3, Some 4, Some 5, Some 6]"
  by (simp add: fillna0_def wrap64_def)

lemma testland_sma:
  "simple_moving_average [Some 0, Some 0, Some 1, Some 2, Some 3, Some 4, Some 5, Some 6] 7 =
     [None, None, None, None, None, None, Some (15 / 7), Some 3]"
  by code_simp

text \<open>
  C1. For the table of Testland (aggregate sentinel, 1 to 8 January, CumConfirmed
  1, 1, 2, 4, 7, 11, 16, 22; any row labels, coordinates and deaths) the query with the
  aggregate sentinel yields NewConfirmed 0, 0, 1, 2, 3, 4, 5, 6, and NewConfirmedSMA7
  missing in the first six rows, 15/7 in the seventh (and 3 in the eighth).
\<close>

theorem testland_scenario:
  "map NewConfirmed (filtered_data (testland lbl la lo dth) ''Testland'' ''<all>'') =
     [Some 0, Some 0, Some 1, Some 2, Some 3, Some 4, Some 5, Some 6]
   \<and> map NewConfirmedSMA7 (filtered_data (testland lbl la lo dth) ''Testland'' ''<all>'') =
     [None, None, None, None, None, None, Some (15 / 7), Some 3]"
  by (simp only: filtered_columns [OF select_all_distinct] testland_cum testland_new testland_sma)

section \<open>The order of the dates\<close>

text \<open>
  C8, as amended. With the aggregate sentinel, the frame that is differenced holds its rows
  in strictly ascending date order (the grouping sorts its keys), and so does the series
  returned. With an explicit region no sort is applied: the frame that is differenced holds
  the rows in the order of the table, and so does the series returned when the selected
  rows carry distinct row labels (each is then joined with its own differences).
\<close>

theorem dates_ascending_when_aggregated:
  "(s = ''<all>'' \<longrightarrow>
      sorted_wrt (<) (map fdate (select_rows d c s))
      \<and> sorted_wrt (<) (map fdate (filtered_data d c s)))
   \<and> (s \<noteq> ''<all>'' \<longrightarrow>
        map fdate (select_rows d c s) =
          map date (filter (\<lambda>r. Country r = c \<and> Province_State r = Some s) d)
        \<and> (distinct (map label (filter (\<lambda>r. Country r = c \<and> Province_State r = Some s) d)) \<longrightarrow>
             map fdate (filtered_data d c s) =
               map date (filter (\<lambda>r. Country r = c \<and> Province_State r = Some s) d)))"
proof (intro conjI impI)
  assume all: "s = ''<all>''"
  show "sorted_wrt (<) (map fdate (select_rows d c s))"
    by (simp add: all select_all_dates strict_sorted_group_keys)
  show "sorted_wrt (<) (map fdate (filtered_data d c s))"
    unfolding all filtered_columns(1) [OF select_all_distinct]
    by (simp add: select_all_dates strict_sorted_group_keys)
next
  assume region: "s \<noteq> ''<all>''"
  show "map fdate (select_rows d c s) =
          map date (filter (\<lambda>r. Country r = c \<and> Province_State r = Some s) d)"
    by (rule select_region_dates [OF region])
  assume "distinct (map label (filter (\<lambda>r. Country r = c \<and> Province_State r = Some s) d))"
  then have "distinct (map flabel (select_rows d c s))"
    by (rule region_labels_distinct [OF region])
  then show "map fdate (filtered_data d c s) =
               map date (filter (\<lambda>r. Country r = c \<and> Province_State r = Some s) d)"
    by (simp add: filtered_columns(1) select_region_dates [OF region])
qed

lemma unordered_selection:
  "select_rows unordered_table ''Testland'' ''North'' =
     [keep_row (region_row 0 2 (Some 7) (Some 0)), keep_row (region_row 1 1 (Some 5) (Some 0))]"
  by (simp add: select_rows_def unordered_table_def region_row_def)

lemma unordered_distinct: "distinct (map flabel (select_rows unordered_table ''Testland'' ''North''))"
  by (simp add: unordered_selection keep_row_def region_row_def)

text \<open>
  C8 as stated fails for an explicit region whose rows the table holds out of date order:
  neither the frame that is differenced nor the series returned is sorted.
\<close>

theorem dates_ascending_counterexample:
  "\<not> sorted (map fdate (select_rows unordered_table ''Testland'' ''North''))
   \<and> \<not> sorted (map fdate (filtered_data unordered_table ''Testland'' ''North''))"
  unfolding filtered_columns(1) [OF unordered_distinct]
  by (simp add: unordered_selection keep_row_def region_row_def)

text \<open>Both branches on the table whose rows are out of order.\<close>

theorem dates_ascending_when_aggregated_witness:
  "sorted_wrt (<) (map fdate (filtered_data unordered_table ''Testland'' ''<all>''))
   \<and> distinct (map label (filter (\<lambda>r. Country r = ''Testland'' \<and> Province_State r = Some ''North'')
        unordered_table))
   \<and> map fdate (filtered_data unordered_table ''Testland'' ''North'') = [(2020, 1, 2), (2020, 1, 1)]"
proof -
  have d: "distinct (map label (filter (\<lambda>r. Country r = ''Testland'' \<and> Province_State r = Some ''North'')
        unordered_table))"
    by (simp add: unordered_table_def region_row_def)
  have f: "map date (filter (\<lambda>r. Country r = ''Testland'' \<and> Province_State r = Some ''North'')
        unordered_table) = [(2020, 1, 2), (2020, 1, 1)]"
    by (simp add: unordered_table_def region_row_def)
  from dates_ascending_when_aggregated [of "''<all>''" unordered_table "''Testland''"]
  have a: "sorted_wrt (<) (map fdate (filtered_data unordered_table ''Testland'' ''<all>''))"
    by simp
  from dates_ascending_when_aggregated [of "''North''" unordered_table "''Testland''"] d
  have b: "map fdate (filtered_data unordered_table ''Testland'' ''North'') =
      map date (filter (\<lambda>r. Country r = ''Testland'' \<and> Province_State r = Some ''North'')
        unordered_table)"
    by simp
  show ?thesis using a b d unfolding f by simp
qed

section \<open>The aggregate query sums every row of the country\<close>

lemma demo_unified_rows:
  "demo_unified =
 [\<lparr>Country = ''Australia'', Province_State = Some ''<all>'',
     Lat = Some (- 39), Long = Some (289 / 2), date = (2020, 1, 22),
     CumConfirmed = Some 0, CumDeaths = Some 0, label = 0\<rparr>,
  \<lparr>Country = ''Australia'', Province_State = Some ''<all>'',
     Lat = Some (- 39), Long = Some (289 / 2), date = (2020, 1, 23),
     CumConfirmed = Some 3, CumDeaths = Some 0, label = 1\<rparr>,
  \<lparr>Country = ''China'', Province_State = Some ''<all>'', Lat = Some 35,
     Long = Some 114, date = (2020, 1, 22), CumConfirmed = Some 458,
     CumDeaths = Some 17, label = 2\<rparr>,
  \<lparr>Country = ''China'', Province_State = Some ''<all>'', Lat = Some 35,
     Long = Some 114, date = (2020, 1, 23), CumConfirmed = Some 445,
     CumDeaths = Some 18, label = 3\<rparr>,
  \<lparr>Country = ''US'', Province_State = Some ''<all>'', Lat = Some 40,
     Long = Some (- 100), date = (2020, 1, 22), CumConfirmed = Some 1,
     CumDeaths = Some 0, label = 4\<rparr>,
  \<lparr>Country = ''US'', Province_State = Some ''<all>'', Lat = Some 40,
     Long = Some (- 100), date = (2020, 1, 23), CumConfirmed = Some 5,
     CumDeaths = Some 1, label = 5\<rparr>,
  \<lparr>Country = ''China'', Province_State = Some ''Hubei'', Lat = Some 30,
     Long = Some 112, date = (2020, 1, 22), CumConfirmed = Some 444,
     CumDeaths = Some 17, label = 6\<rparr>,
  \<lparr>Country = ''China'', Province_State = Some ''Beijing'', Lat = Some 40,
     Long = Some 116, date = (2020, 1, 22), CumConfirmed = Some 14,
     CumDeaths = Some 0, label = 7\<rparr>,
  \<lparr>Country = ''China'', Province_State = Some ''Hubei'', Lat = Some 30,
     Long = Some 112, date = (2020, 1, 23), CumConfirmed = Some 445,
     CumDeaths = Some 17, label = 8\<rparr>,
  \<lparr>Country = ''China'', Province_State = Some ''Beijing'', Lat = Some 40,
     Long = Some 116, date = (2020, 1, 23), CumConfirmed = None,
     CumDeaths = Some 1, label = 9\<rparr>,
  \<lparr>Country = ''US'', Province_State = Some ''New York'', Lat = Some 41,
     Long = Some (- 75), date = (2020, 1, 22), CumConfirmed = Some 1,
     CumDeaths = Some 0, label = 0\<rparr>,
  \<lparr>Country = ''US'', Province_State = Some ''New York'', Lat = Some 41,
     Long = Some (- 75), date = (2020, 1, 23), CumConfirmed = Some 5,
     CumDeaths = Some 1, label = 1\<rparr>]"
  by code_simp

lemma sum_present_Cons:
  "sum_list (present (v # vs)) = (case v of None \<Rightarrow> 0 | Some x \<Rightarrow> x) + sum_list (present vs)"
  by (cases v) simp_all

lemma sum_present_map:
  "sum_list (present vs) = sum_list (map (\<lambda>v. case v of None \<Rightarrow> 0 | Some x \<Rightarrow> x) vs)"
  by (induction vs) (simp_all add: sum_present_Cons)

lemma sum_present_split:
  fixes f :: "'a \<Rightarrow> int option"
  shows "sum_list (present (map f (filter Q xs))) =
     sum_list (present (map f (filter (\<lambda>x. Q x \<and> P x) xs))) +
     sum_list (present (map f (filter (\<lambda>x. Q x \<and> \<not> P x) xs)))"
  by (induction xs) (simp_all add: sum_present_Cons algebra_simps)

text \<open>
  C10, as amended. With the aggregate sentinel, the series has one row per date of the
  country, and its CumConfirmed is the sum, in 64-bit arithmetic, over the country's
  aggregate-sentinel rows plus the sum over its province rows on that date (missing counts
  as zero). Where the two sums agree on every date and twice the sum over the provinces
  lies in the signed 64-bit range, that is twice the sum over the provinces.
\<close>

theorem aggregate_query_adds_total_and_provinces:
  "map fdate (filtered_data d c ''<all>'') = group_keys (map date (filter (\<lambda>r. Country r = c) d))
   \<and> map fCumConfirmed (filtered_data d c ''<all>'') =
       map (\<lambda>k. Some (wrap64
             (sum_list (present (map CumConfirmed (filter
                (\<lambda>r. (Country r = c \<and> date r = k) \<and> Province_State r = Some ''<all>'') d))) +
              sum_list (present (map CumConfirmed (filter
                (\<lambda>r. (Country r = c \<and> date r = k) \<and> Province_State r \<noteq> Some ''<all>'') d))))))
           (group_keys (map date (filter (\<lambda>r. Country r = c) d)))
   \<and> ((\<forall>k \<in> set (group_keys (map date (filter (\<lambda>r. Country r = c) d))).
          sum_list (present (map CumConfirmed (filter
                (\<lambda>r. (Country r = c \<and> date r = k) \<and> Province_State r = Some ''<all>'') d))) =
             sum_list (present (map CumConfirmed (filter
                (\<lambda>r. (Country r = c \<and> date r = k) \<and> Province_State r \<noteq> Some ''<all>'') d)))
          \<and> - (2 ^ 63) \<le> 2 * sum_list (present (map CumConfirmed (filter
                (\<lambda>r. (Country r = c \<and> date r = k) \<and> Province_State r \<noteq> Some ''<all>'') d)))
          \<and> 2 * sum_list (present (map CumConfirmed (filter
                (\<lambda>r. (Country r = c \<and> date r = k) \<and> Province_State r \<noteq> Some ''<all>'') d))) < 2 ^ 63) \<longrightarrow>
        map fCumConfirmed (filtered_data d c ''<all>'') =
          map (\<lambda>k. Some (2 *
                 sum_list (present (map CumConfirmed (filter
                   (\<lambda>r. (Country r = c \<and> date r = k) \<and> Province_State r \<noteq> Some ''<all>'') d)))))
              (group_keys (map date (filter (\<lambda>r. Country r = c) d))))"
proof -
  let ?keys = "group_keys (map date (filter (\<lambda>r. Country r = c) d))"
  let ?A = "\<lambda>k. sum_list (present (map CumConfirmed (filter
        (\<lambda>r. (Country r = c \<and> date r = k) \<and> Province_State r = Some ''<all>'') d)))"
  let ?P = "\<lambda>k. sum_list (present (map CumConfirmed (filter
        (\<lambda>r. (Country r = c \<and> date r = k) \<and> Province_State r \<noteq> Some ''<all>'') d)))"
  have split: "\<And>k. sum_list (present (map CumConfirmed (filter (\<lambda>r. Country r = c \<and> date r = k) d))) =
      ?A k + ?P k"
    by (rule sum_present_split)
  have cum: "map fCumConfirmed (filtered_data d c ''<all>'') =
       map (\<lambda>k. Some (wrap64 (?A k + ?P k))) ?keys"
    unfolding filtered_columns [OF select_all_distinct] select_all_confirmed
    by (rule map_cong [OF refl]) (simp only: split)
  have dates: "map fdate (filtered_data d c ''<all>'') = ?keys"
    by (simp only: filtered_columns [OF select_all_distinct] select_all_dates)
  have twice: "map fCumConfirmed (filtered_data d c ''<all>'') = map (\<lambda>k. Some (2 * ?P k)) ?keys"
    if eq: "\<forall>k \<in> set ?keys. ?A k = ?P k \<and> - (2 ^ 63) \<le> 2 * ?P k \<and> 2 * ?P k < 2 ^ 63"
    unfolding cum
  proof (rule map_cong [OF refl])
    fix k assume "k \<in> set ?keys"
    with eq have "?A k = ?P k" and b: "- (2 ^ 63) \<le> 2 * ?P k" "2 * ?P k < 2 ^ 63" by auto
    then have "?A k + ?P k = 2 * ?P k" by simp
    with wrap64_id [OF b] show "Some (wrap64 (?A k + ?P k)) = Some (2 * ?P k)" by simp
  qed
  from dates cum twice show ?thesis by blast
qed

text \<open>
  C10 as stated fails where twice the total leaves the 64-bit range: the aggregate row and
  the one province row of China hold \<open>2 ^ 62\<close> cases each, and the query returns
  \<open>- (2 ^ 63)\<close>.
\<close>

theorem aggregate_query_adds_total_and_provinces_counterexample:
  "map CumConfirmed large_table = [Some (2 ^ 62), Some (2 ^ 62)]
   \<and> map Province_State large_table = [Some ''<all>'', Some ''Hubei'']
   \<and> map fCumConfirmed (filtered_data large_table ''China'' ''<all>'') = [Some (- (2 ^ 63))]"
  unfolding filtered_columns [OF select_all_distinct] select_all_confirmed
  by (simp add: large_table_def group_keys_def wrap64_def)

text \<open>
  On the unified table of the sample files: China and the US, queried with the aggregate
  sentinel, show twice the counts of their provinces and states.
\<close>

theorem aggregate_query_adds_total_and_provinces_witness:
  "map fCumConfirmed (filtered_data demo_unified ''China'' ''<all>'') = [Some 916, Some 890]
   \<and> map fCumConfirmed (filtered_data demo_unified ''US'' ''<all>'') = [Some 2, Some 10]
   \<and> map fCumConfirmed (select_rows demo_unified ''China'' ''Hubei'') = [Some 444, Some 445]
   \<and> map fCumConfirmed (select_rows demo_unified ''China'' ''Beijing'') = [Some 14, None]
   \<and> map fCumConfirmed (select_rows demo_unified ''US'' ''New York'') = [Some 1, Some 5]"
proof -
  have plain: "map fCumConfirmed (select_rows demo_unified ''China'' ''Hubei'') = [Some 444, Some 445]"
    "map fCumConfirmed (select_rows demo_unified ''China'' ''Beijing'') = [Some 14, None]"
    "map fCumConfirmed (select_rows demo_unified ''US'' ''New York'') = [Some 1, Some 5]"
    by (simp_all add: select_region_confirmed demo_unified_rows)
  have keys: "group_keys (map date (filter (\<lambda>r. Country r = ''China'') demo_unified)) =
      [(2020, 1, 22), (2020, 1, 23)]"
    "group_keys (map date (filter (\<lambda>r. Country r = ''US'') demo_unified)) =
      [(2020, 1, 22), (2020, 1, 23)]"
    by (simp_all add: demo_unified_rows group_keys_def)
  have china: "\<forall>k \<in> set (group_keys (map date (filter (\<lambda>r. Country r = ''China'') demo_unified))).
      sum_list (present (map CumConfirmed (filter
        (\<lambda>r. (Country r = ''China'' \<and> date r = k) \<and> Province_State r = Some ''<all>'') demo_unified))) =
      sum_list (present (map CumConfirmed (filter
        (\<lambda>r. (Country r = ''China'' \<and> date r = k) \<and> Province_State r \<noteq> Some ''<all>'') demo_unified)))
      \<and> - (2 ^ 63) \<le> 2 * sum_list (present (map CumConfirmed (filter
        (\<lambda>r. (Country r = ''China'' \<and> date r = k) \<and> Province_State r \<noteq> Some ''<all>'') demo_unified)))
      \<and> 2 * sum_list (present (map CumConfirmed (filter
        (\<lambda>r. (Country r = ''China'' \<and> date r = k) \<and> Province_State r \<noteq> Some ''<all>'') demo_unified))) < 2 ^ 63"
    unfolding keys by (simp add: demo_unified_rows)
  have us: "\<forall>k \<in> set (group_keys (map date (filter (\<lambda>r. Country r = ''US'') demo_unified))).
      sum_list (present (map CumConfirmed (filter
        (\<lambda>r. (Country r = ''US'' \<and> date r = k) \<and> Province_State r = Some ''<all>'') demo_unified))) =
      sum_list (present (map CumConfirmed (filter
        (\<lambda>r. (Country r = ''US'' \<and> date r = k) \<and> Province_State r \<noteq> Some ''<all>'') demo_unified)))
      \<and> - (2 ^ 63) \<le> 2 * sum_list (present (map CumConfirmed (filter
        (\<lambda>r. (Country r = ''US'' \<and> date r = k) \<and> Province_State r \<noteq> Some ''<all>'') demo_unified)))
      \<and> 2 * sum_list (present (map CumConfirmed (filter
        (\<lambda>r. (Country r = ''US'' \<and> date r = k) \<and> Province_State r \<noteq> Some ''<all>'') demo_unified))) < 2 ^ 63"
    unfolding keys by (simp add: demo_unified_rows)
  from aggregate_query_adds_total_and_provinces [of demo_unified "''China''"] china
  have "map fCumConfirmed (filtered_data demo_unified ''China'' ''<all>'') =
      map (\<lambda>k. Some (2 * sum_list (present (map CumConfirmed (filter
        (\<lambda>r. (Country r = ''China'' \<and> date r = k) \<and> Province_State r \<noteq> Some ''<all>'') demo_unified)))))
        (group_keys (map date (filter (\<lambda>r. Country r = ''China'') demo_unified)))"
    by blast
  then have a: "map fCumConfirmed (filtered_data demo_unified ''China'' ''<all>'') = [Some 916, Some 890]"
    unfolding keys by (simp add: demo_unified_rows)
  from aggregate_query_adds_total_and_provinces [of demo_unified "''US''"] us
  have "map fCumConfirmed (filtered_data demo_unified ''US'' ''<all>'') =
      map (\<lambda>k. Some (2 * sum_list (present (map CumConfirmed (filter
        (\<lambda>r. (Country r = ''US'' \<and> date r = k) \<and> Province_State r \<noteq> Some ''<all>'') demo_unified)))))
        (group_keys (map date (filter (\<lambda>r. Country r = ''US'') demo_unified)))"
    by blast
  then have b: "map fCumConfirmed (filtered_data demo_unified ''US'' ''<all>'') = [Some 2, Some 10]"
    unfolding keys by (simp add: demo_unified_rows)
  from a b plain show ?thesis by simp
qed

section \<open>Missing counts in the differences and in the sums\<close>

lemma nth_diff:
  "i < length vs \<Longrightarrow> diff vs ! i = (if i = 0 then None else minus_na (vs ! i) (vs ! (i - 1)))"
proof (cases vs)
  case Nil
  then show "i < length vs \<Longrightarrow> ?thesis" by simp
next
  case (Cons v ws)
  assume "i < length vs"
  with Cons show ?thesis by (cases i) simp_all
qed

lemma nth_fillna0:
  "i < length vs \<Longrightarrow> fillna0 vs ! i = (case vs ! i of None \<Rightarrow> Some 0 | Some x \<Rightarrow> Some x)"
  by (simp add: fillna0_def)

lemma new_from_cum:
  assumes "i < length cum"
  shows "fillna0 (diff cum) ! i =
     (if i = 0 then Some 0
      else case (cum ! (i - 1), cum ! i) of
             (Some p, Some v) \<Rightarrow> Some (wrap64 (v - p))
           | _ \<Rightarrow> Some 0)"
proof (cases "i = 0")
  case True
  with assms show ?thesis by (simp add: nth_fillna0 nth_diff)
next
  case False
  with assms show ?thesis
    by (cases "cum ! i"; cases "cum ! (i - 1)") (simp_all add: nth_fillna0 nth_diff)
qed

lemma fillna0_present: "v \<in> set (fillna0 vs) \<Longrightarrow> v \<noteq> None"
  by (auto simp: fillna0_def split: option.splits)

lemma new_cases_present:
  assumes "n \<in> set (new_cases data)"
  shows "fst (snd n) \<noteq> None \<and> snd (snd n) \<noteq> None"
proof -
  obtain l nc nd where n: "n = (l, nc, nd)" by (cases n) auto
  with assms have "(nc, nd) \<in> set (zip (fillna0 (diff (map fCumConfirmed data)))
      (fillna0 (diff (map fCumDeaths data))))"
    unfolding new_cases_def by (auto dest: set_zip_rightD)
  then have "nc \<in> set (fillna0 (diff (map fCumConfirmed data)))"
    and "nd \<in> set (fillna0 (diff (map fCumDeaths data)))"
    by (auto dest: set_zip_leftD set_zip_rightD)
  with n show ?thesis by (simp add: fillna0_present)
qed

lemma join_present:
  assumes "x \<in> set (join data (new_cases data))"
  shows "fst (snd x) \<noteq> None \<and> snd (snd x) \<noteq> None"
proof -
  from assms obtain r n where "n \<in> set (new_cases data)" "x = (r, snd n)"
    unfolding join_def by auto
  with new_cases_present [of n data] show ?thesis by simp
qed

lemma filtered_present:
  assumes "r \<in> set (filtered_data d c s)"
  shows "NewConfirmed r \<noteq> None \<and> NewDeaths r \<noteq> None"
proof -
  let ?joined = "join (select_rows d c s) (new_cases (select_rows d c s))"
  from assms obtain x m where x: "x \<in> set ?joined" and r: "r = join_row (x, m)"
    unfolding filtered_data_def Let_def by (auto dest: set_zip_leftD)
  obtain a nc nd where xa: "x = (a, nc, nd)" by (cases x) auto
  obtain sd sc where m: "m = (sd, sc)" by (cases m) auto
  from join_present [OF x] xa have "nc \<noteq> None" "nd \<noteq> None" by simp_all
  with r xa m show ?thesis by (simp add: join_row_def)
qed

lemma filtered_new_positional:
  assumes dist: "distinct (map flabel (select_rows d c s))"
    and i: "i < length (filtered_data d c s)"
  shows "NewConfirmed (filtered_data d c s ! i) =
           (if i = 0 then Some 0
            else case (fCumConfirmed (filtered_data d c s ! (i - 1)),
                       fCumConfirmed (filtered_data d c s ! i)) of
                   (Some p, Some v) \<Rightarrow> Some (wrap64 (v - p))
                 | _ \<Rightarrow> Some 0)
         \<and> NewDeaths (filtered_data d c s ! i) =
           (if i = 0 then Some 0
            else case (fCumDeaths (filtered_data d c s ! (i - 1)),
                       fCumDeaths (filtered_data d c s ! i)) of
                   (Some p, Some v) \<Rightarrow> Some (wrap64 (v - p))
                 | _ \<Rightarrow> Some 0)"
proof -
  let ?res = "filtered_data d c s"
  let ?sel = "select_rows d c s"
  have len: "i < length ?sel" using i by (simp add: length_filtered_data [OF dist])
  have lenC: "i < length (map fCumConfirmed ?sel)" and lenD: "i < length (map fCumDeaths ?sel)"
    using len by simp_all
  note cols = filtered_columns [OF dist]
  have nc: "NewConfirmed (?res ! i) = fillna0 (diff (map fCumConfirmed ?sel)) ! i"
    using i by (simp only: nth_map [symmetric] cols)
  have nd: "NewDeaths (?res ! i) = fillna0 (diff (map fCumDeaths ?sel)) ! i"
    using i by (simp only: nth_map [symmetric] cols)
  have im: "i - 1 < length ?res" using i by simp
  have cc: "fCumConfirmed (?res ! i) = map fCumConfirmed ?sel ! i"
    "fCumDeaths (?res ! i) = map fCumDeaths ?sel ! i"
    using i by (simp_all only: nth_map [symmetric] cols)
  have cp: "fCumConfirmed (?res ! (i - 1)) = map fCumConfirmed ?sel ! (i - 1)"
    "fCumDeaths (?res ! (i - 1)) = map fCumDeaths ?sel ! (i - 1)"
    using im by (simp_all only: nth_map [symmetric] cols)
  show ?thesis
    unfolding nc nd cc cp
    by (rule conjI [OF new_from_cum [OF lenC] new_from_cum [OF lenD]])
qed

lemma filtered_region_cum:
  assumes r: "s \<noteq> ''<all>''"
    and dl: "distinct (map label (filter (\<lambda>r. Country r = c \<and> Province_State r = Some s) d))"
    and i: "i < length (filtered_data d c s)"
  shows "fCumConfirmed (filtered_data d c s ! i) =
           CumConfirmed (filter (\<lambda>r. Country r = c \<and> Province_State r = Some s) d ! i)
         \<and> fCumDeaths (filtered_data d c s ! i) =
           CumDeaths (filter (\<lambda>r. Country r = c \<and> Province_State r = Some s) d ! i)"
proof -
  let ?res = "filtered_data d c s"
  let ?rows = "filter (\<lambda>r. Country r = c \<and> Province_State r = Some s) d"
  have ds: "distinct (map flabel (select_rows d c s))"
    by (rule region_labels_distinct [OF r dl])
  have "length ?res = length (map fdate (select_rows d c s))"
    by (simp add: length_filtered_data [OF ds])
  also have "\<dots> = length ?rows"
    by (simp only: select_region_dates [OF r] length_map)
  finally have len: "i < length ?rows" using i by simp
  have "fCumConfirmed (?res ! i) = map fCumConfirmed ?res ! i"
    and "fCumDeaths (?res ! i) = map fCumDeaths ?res ! i"
    using i by simp_all
  then show ?thesis
    unfolding filtered_columns [OF ds] select_region_confirmed [OF r] select_region_deaths [OF r]
    using len by simp
qed

lemma filtered_all_cum:
  assumes i: "i < length (filtered_data d c ''<all>'')"
  shows "fCumConfirmed (filtered_data d c ''<all>'' ! i) =
           Some (wrap64 (sum_list (map (\<lambda>v. case v of None \<Rightarrow> 0 | Some x \<Rightarrow> x)
             (map CumConfirmed (filter
               (\<lambda>r. Country r = c \<and> date r = fdate (filtered_data d c ''<all>'' ! i)) d)))))
         \<and> fCumDeaths (filtered_data d c ''<all>'' ! i) =
           Some (wrap64 (sum_list (map (\<lambda>v. case v of None \<Rightarrow> 0 | Some x \<Rightarrow> x)
             (map CumDeaths (filter
               (\<lambda>r. Country r = c \<and> date r = fdate (filtered_data d c ''<all>'' ! i)) d)))))"
proof -
  let ?res = "filtered_data d c ''<all>''"
  let ?keys = "group_keys (map date (filter (\<lambda>r. Country r = c) d))"
  note cols = filtered_columns [OF select_all_distinct, of d c]
  have "length ?res = length (map fdate (select_rows d c ''<all>''))"
    by (simp add: length_filtered_data [OF select_all_distinct])
  also have "\<dots> = length ?keys"
    by (simp only: select_all_dates)
  finally have k: "i < length ?keys" using i by simp
  have dt: "fdate (?res ! i) = ?keys ! i"
    using i nth_map [of i ?res fdate] by (simp only: cols select_all_dates)
  have cc: "fCumConfirmed (?res ! i) = map fCumConfirmed (select_rows d c ''<all>'') ! i"
    using i nth_map [of i ?res fCumConfirmed] by (simp only: cols)
  have cd: "fCumDeaths (?res ! i) = map fCumDeaths (select_rows d c ''<all>'') ! i"
    using i nth_map [of i ?res fCumDeaths] by (simp only: cols)
  show ?thesis
    unfolding dt cc cd select_all_confirmed select_all_deaths
    using k by (simp add: sum_present_map)
qed

text \<open>
  C6, as amended. NewConfirmed and NewDeaths are never missing. When each row is joined
  with its own differences (the aggregate sentinel, or an explicit region whose rows carry
  distinct row labels), they are zero in the first row, and in every later row the
  difference to the row before, in 64-bit arithmetic, when both cumulative cells are
  present, and zero when one of them is missing. With an explicit region the cumulative
  cells are those of the table, so a missing count stays missing. With the aggregate
  sentinel the cumulative cells are the sums, in 64-bit arithmetic, over the country's rows
  of the date, a missing cell counting as zero.
\<close>

theorem differences_fill_zero:
  assumes "i < length (filtered_data d c s)"
  shows "(NewConfirmed (filtered_data d c s ! i) \<noteq> None
          \<and> NewDeaths (filtered_data d c s ! i) \<noteq> None)
         \<and> (s = ''<all>'' \<or>
             distinct (map label (filter (\<lambda>r. Country r = c \<and> Province_State r = Some s) d)) \<longrightarrow>
              NewConfirmed (filtered_data d c s ! i) =
                (if i = 0 then Some 0
                 else case (fCumConfirmed (filtered_data d c s ! (i - 1)),
                            fCumConfirmed (filtered_data d c s ! i)) of
                        (Some p, Some v) \<Rightarrow> Some (wrap64 (v - p))
                      | _ \<Rightarrow> Some 0)
              \<and> NewDeaths (filtered_data d c s ! i) =
                (if i = 0 then Some 0
                 else case (fCumDeaths (filtered_data d c s ! (i - 1)),
                            fCumDeaths (filtered_data d c s ! i)) of
                        (Some p, Some v) \<Rightarrow> Some (wrap64 (v - p))
                      | _ \<Rightarrow> Some 0))
         \<and> (s \<noteq> ''<all>'' \<longrightarrow>
              (map fCumConfirmed (select_rows d c s) =
                map CumConfirmed (filter (\<lambda>r. Country r = c \<and> Province_State r = Some s) d)
               \<and> map fCumDeaths (select_rows d c s) =
                map CumDeaths (filter (\<lambda>r. Country r = c \<and> Province_State r = Some s) d))
              \<and> (distinct (map label (filter (\<lambda>r. Country r = c \<and> Province_State r = Some s) d)) \<longrightarrow>
                   fCumConfirmed (filtered_data d c s ! i) =
                     CumConfirmed (filter (\<lambda>r. Country r = c \<and> Province_State r = Some s) d ! i)
                   \<and> fCumDeaths (filtered_data d c s ! i) =
                     CumDeaths (filter (\<lambda>r. Country r = c \<and> Province_State r = Some s) d ! i)))
         \<and> (s = ''<all>'' \<longrightarrow>
              fCumConfirmed (filtered_data d c s ! i) =
                Some (wrap64 (sum_list (map (\<lambda>v. case v of None \<Rightarrow> 0 | Some x \<Rightarrow> x)
                  (map CumConfirmed (filter
                    (\<lambda>r. Country r = c \<and> date r = fdate (filtered_data d c s ! i)) d)))))
              \<and> fCumDeaths (filtered_data d c s ! i) =
                Some (wrap64 (sum_list (map (\<lambda>v. case v of None \<Rightarrow> 0 | Some x \<Rightarrow> x)
                  (map CumDeaths (filter
                    (\<lambda>r. Country r = c \<and> date r = fdate (filtered_data d c s ! i)) d))))))"
    (is "?never \<and> (?paired \<longrightarrow> ?new) \<and> (?region \<longrightarrow> ?kept \<and> (?labels \<longrightarrow> ?same)) \<and> (?all \<longrightarrow> ?total)")
proof -
  have never: ?never
    by (rule filtered_present [OF nth_mem [OF assms]])
  have new: "?paired \<longrightarrow> ?new"
  proof
    assume ?paired
    then have "distinct (map flabel (select_rows d c s))"
      using select_all_distinct [of d c] region_labels_distinct [of s c d] by blast
    then show ?new by (rule filtered_new_positional [OF _ assms])
  qed
  have region: "?region \<longrightarrow> ?kept \<and> (?labels \<longrightarrow> ?same)"
  proof (intro impI conjI)
    assume r: ?region
    show "map fCumConfirmed (select_rows d c s) =
        map CumConfirmed (filter (\<lambda>r. Country r = c \<and> Province_State r = Some s) d)"
      by (rule select_region_confirmed [OF r])
    show "map fCumDeaths (select_rows d c s) =
        map CumDeaths (filter (\<lambda>r. Country r = c \<and> Province_State r = Some s) d)"
      by (rule select_region_deaths [OF r])
    assume l: ?labels
    from filtered_region_cum [OF r l assms]
    show "fCumConfirmed (filtered_data d c s ! i) =
        CumConfirmed (filter (\<lambda>r. Country r = c \<and> Province_State r = Some s) d ! i)"
      and "fCumDeaths (filtered_data d c s ! i) =
        CumDeaths (filter (\<lambda>r. Country r = c \<and> Province_State r = Some s) d ! i)"
      by (rule conjunct1, rule conjunct2)
  qed
  have total: "?all \<longrightarrow> ?total"
  proof
    assume a: ?all
    have "i < length (filtered_data d c ''<all>'')" using assms unfolding a .
    from filtered_all_cum [OF this] show ?total unfolding a .
  qed
  show ?thesis
    by (rule conjI [OF never conjI [OF new conjI [OF region total]]])
qed

text \<open>
  C6 as stated fails: the second count of the region is missing, and the differences of
  the second and third rows are zero, not missing.
\<close>

theorem differences_fill_zero_counterexample:
  "map fCumConfirmed (filtered_data gap_table ''Testland'' ''North'') = [Some 5, None, Some 9]
   \<and> map NewConfirmed (filtered_data gap_table ''Testland'' ''North'') = [Some 0, Some 0, Some 0]"
proof -
  have sel: "select_rows gap_table ''Testland'' ''North'' =
      [keep_row (region_row 0 1 (Some 5) (Some 0)), keep_row (region_row 1 2 None (Some 0)),
       keep_row (region_row 2 3 (Some 9) (Some 1))]"
    by (simp add: select_rows_def gap_table_def region_row_def)
  have "distinct (map flabel (select_rows gap_table ''Testland'' ''North''))"
    by (simp add: sel keep_row_def region_row_def)
  note cols = filtered_columns [OF this]
  show ?thesis
    unfolding cols by (simp add: sel keep_row_def region_row_def fillna0_def)
qed

text \<open>The rows around the missing count, and the aggregate of the day it is missing.\<close>

theorem differences_fill_zero_witness:
  "distinct (map label (filter (\<lambda>r. Country r = ''Testland'' \<and> Province_State r = Some ''North'')
      gap_table))
   \<and> fCumConfirmed (filtered_data gap_table ''Testland'' ''North'' ! 1) = None
   \<and> NewConfirmed (filtered_data gap_table ''Testland'' ''North'' ! 1) = Some 0
   \<and> NewConfirmed (filtered_data gap_table ''Testland'' ''North'' ! 2) = Some 0
   \<and> fCumConfirmed (filtered_data gap_table ''Testland'' ''<all>'' ! 1) = Some 0"
proof -
  let ?rows = "filter (\<lambda>r. Country r = ''Testland'' \<and> Province_State r = Some ''North'') gap_table"
  have rows: "?rows = gap_table"
    by (simp add: gap_table_def region_row_def)
  have dl: "distinct (map label ?rows)"
    by (simp add: gap_table_def region_row_def)
  have ds: "distinct (map flabel (select_rows gap_table ''Testland'' ''North''))"
    by (rule region_labels_distinct [OF _ dl]) simp
  have len: "length (filtered_data gap_table ''Testland'' ''North'') = 3"
    "length (filtered_data gap_table ''Testland'' ''<all>'') = 3"
    unfolding length_filtered_data [OF ds] length_filtered_data [OF select_all_distinct]
    by (simp_all add: select_rows_def gap_table_def region_row_def group_keys_def Let_def)
  have i0: "0 < length (filtered_data gap_table ''Testland'' ''North'')"
    and i1: "1 < length (filtered_data gap_table ''Testland'' ''North'')"
    and i2: "2 < length (filtered_data gap_table ''Testland'' ''North'')"
    and i3: "1 < length (filtered_data gap_table ''Testland'' ''<all>'')"
    using len by simp_all
  have c0: "fCumConfirmed (filtered_data gap_table ''Testland'' ''North'' ! 0) = Some 5"
    using differences_fill_zero [OF i0] dl unfolding rows
    by (simp add: gap_table_def region_row_def)
  have c1: "fCumConfirmed (filtered_data gap_table ''Testland'' ''North'' ! 1) = None"
    using differences_fill_zero [OF i1] dl unfolding rows
    by (simp add: gap_table_def region_row_def)
  have c2: "fCumConfirmed (filtered_data gap_table ''Testland'' ''North'' ! 2) = Some 9"
    using differences_fill_zero [OF i2] dl unfolding rows
    by (simp add: gap_table_def region_row_def)
  have n1: "NewConfirmed (filtered_data gap_table ''Testland'' ''North'' ! 1) = Some 0"
    using differences_fill_zero [OF i1] dl by (simp add: c0 c1 [unfolded One_nat_def])
  have n2: "NewConfirmed (filtered_data gap_table ''Testland'' ''North'' ! 2) = Some 0"
    using differences_fill_zero [OF i2] dl by (simp add: c1 [unfolded One_nat_def] c2)
  have dates: "map fdate (filtered_data gap_table ''Testland'' ''<all>'') =
      [(2020, 1, 1), (2020, 1, 2), (2020, 1, 3)]"
    unfolding filtered_columns [OF select_all_distinct] select_all_dates
    by (simp add: gap_table_def region_row_def group_keys_def)
  have d1: "fdate (filtered_data gap_table ''Testland'' ''<all>'' ! 1) = (2020, 1, 2)"
    using dates len by (simp flip: nth_map [of _ _ fdate])
  have "fCumConfirmed (filtered_data gap_table ''Testland'' ''<all>'' ! 1) =
      Some (wrap64 (sum_list (map (\<lambda>v. case v of None \<Rightarrow> 0 | Some x \<Rightarrow> x)
        (map CumConfirmed (filter (\<lambda>r. Country r = ''Testland'' \<and> date r = (2020, 1, 2)) gap_table)))))"
    using differences_fill_zero [OF i3] unfolding d1 by simp
  also have "\<dots> = Some 0"
    by (simp add: gap_table_def region_row_def wrap64_def)
  finally show ?thesis
    using c1 n1 n2 dl by simp
qed

section \<open>The options of the state dropdown\<close>

text \<open>
  C5. \<^verbatim>\<open>update_states\<close> on the unified table of the sample files and on a table
  with one aggregate row: the aggregate sentinel is listed twice, for a country without
  sub-national rows (Australia, Testland) as for one with provinces (China).
\<close>

theorem update_states_repeats_sentinel:
  "update_states demo_unified ''Australia'' =
     Inr ([(''<all>'', ''<all>''), (''<all>'', ''<all>'')], ''<all>'')
   \<and> update_states demo_unified ''China'' =
     Inr ([(''<all>'', ''<all>''), (''<all>'', ''<all>''), (''Beijing'', ''Beijing''),
           (''Hubei'', ''Hubei'')], ''<all>'')
   \<and> update_states stale_table ''Testland'' =
     Inr ([(''<all>'', ''<all>''), (''<all>'', ''<all>'')], ''<all>'')"
  by (simp add: update_states_def demo_unified_rows stale_table_def)

end
